theory Spec2Isabelle
  imports
    Main
    "HOL-Library.Char_ord"
    "HOL-Library.List_Lexorder"
    "HOL-Library.Product_Lexorder"
begin

section \<open>Python values\<close>

text \<open>
  The values that travel through the checkpoint subsystem are JSON-like Python values.
  A dict is an association list in insertion order whose keys are pairwise different;
  floats do not occur in the modelled fragment.
\<close>

datatype pyval =
    PNone
  | PBool bool
  | PInt int
  | PStr string
  | PList "pyval list"
  | PDict "(string \<times> pyval) list"

type_synonym pydict = "(string \<times> pyval) list"

datatype error = TypeError | IntegrityError | OperationalError

text \<open>
  Python's \<open>==\<close> on these values: a bool equals the int it denotes, lists are compared
  element by element, dicts key by key whatever the insertion order.
\<close>

function py_eq :: "pyval \<Rightarrow> pyval \<Rightarrow> bool"
  and py_eq_list :: "pyval list \<Rightarrow> pyval list \<Rightarrow> bool"
  and py_eq_items :: "pydict \<Rightarrow> pydict \<Rightarrow> bool"
where
  "py_eq PNone w = (case w of PNone \<Rightarrow> True | _ \<Rightarrow> False)"
| "py_eq (PBool a) w =
     (case w of PBool b \<Rightarrow> a = b | PInt n \<Rightarrow> (if a then 1 else 0) = n | _ \<Rightarrow> False)"
| "py_eq (PInt m) w =
     (case w of PBool b \<Rightarrow> m = (if b then 1 else 0) | PInt n \<Rightarrow> m = n | _ \<Rightarrow> False)"
| "py_eq (PStr s) w = (case w of PStr t \<Rightarrow> s = t | _ \<Rightarrow> False)"
| "py_eq (PList xs) w = (case w of PList ys \<Rightarrow> py_eq_list xs ys | _ \<Rightarrow> False)"
| "py_eq (PDict d) w =
     (case w of PDict e \<Rightarrow> length d = length e \<and> py_eq_items d e | _ \<Rightarrow> False)"
| "py_eq_list [] ys = (ys = [])"
| "py_eq_list (x # xs) ys =
     (case ys of [] \<Rightarrow> False | y # ys' \<Rightarrow> py_eq x y \<and> py_eq_list xs ys')"
| "py_eq_items [] e = True"
| "py_eq_items ((k, v) # d) e =
     ((case map_of e k of None \<Rightarrow> False | Some w \<Rightarrow> py_eq v w) \<and> py_eq_items d e)"
  by pat_completeness auto
termination
  by (relation "measure (\<lambda>x. case x of
        Inl (v, w) \<Rightarrow> size v
      | Inr (Inl (xs, ys)) \<Rightarrow> size_list size xs
      | Inr (Inr (d, e)) \<Rightarrow> size_list (size_prod (\<lambda>_. 0) size) d)") auto

subsection \<open>Dict primitives\<close>

definition dict_get :: "pydict \<Rightarrow> string \<Rightarrow> pyval option" where
  "dict_get d k = map_of d k"

definition dict_get_default :: "pydict \<Rightarrow> string \<Rightarrow> pyval \<Rightarrow> pyval" where
  "dict_get_default d k dflt = (case map_of d k of None \<Rightarrow> dflt | Some v \<Rightarrow> v)"

text \<open>\<open>d[k] = v\<close>: an existing key keeps its position, a new key goes last.\<close>

fun dict_set :: "pydict \<Rightarrow> string \<Rightarrow> pyval \<Rightarrow> pydict" where
  "dict_set [] k v = [(k, v)]"
| "dict_set ((k', v') # d) k v =
     (if k' = k then (k, v) # d else (k', v') # dict_set d k v)"

text \<open>\<open>dict(items)\<close>: the items are stored one after the other.\<close>

definition dict_of_items :: "(string \<times> pyval) list \<Rightarrow> pydict" where
  "dict_of_items items = foldl (\<lambda>d (k, v). dict_set d k v) [] items"

section \<open>Checkpoints as Python objects\<close>

text \<open>
  A \<open>datetime\<close> is an instant on the time line together with the flag that tells an
  aware value from a naive one. Python orders two datetimes of the same kind by their
  instants and raises \<open>TypeError\<close> when asked to order an aware and a naive one.
\<close>

record datetime =
  instant :: int
  tz_aware :: bool

definition dt_le :: "datetime \<Rightarrow> datetime \<Rightarrow> error + bool" where
  "dt_le x y =
     (if tz_aware x = tz_aware y then Inr (instant x \<le> instant y) else Inl TypeError)"

text \<open>
  Modelled from the spec: the \<open>Checkpoint\<close> dataclass of
  \<open>agentgit.checkpoints.checkpoint\<close> is not among the sources. Its attributes are those
  of the data model: \<open>id\<close>, \<open>internal_session_id\<close>, \<open>checkpoint_name\<close>, \<open>is_auto\<close>,
  \<open>created_at\<close>, \<open>user_id\<close> and the payload \<open>session_state\<close>, \<open>conversation_history\<close>,
  \<open>tool_invocations\<close>, \<open>metadata\<close>. An unpersisted instance has \<open>id = None\<close>. The
  code reads every list or dict attribute through \<open>x or []\<close> / \<open>x or {}\<close>, which maps
  \<open>None\<close> and the empty container to the same value, so \<open>None\<close> is represented by the
  empty container.
\<close>

record checkpoint =
  cp_id :: "int option"
  cp_internal_session_id :: int
  cp_checkpoint_name :: "string option"
  cp_is_auto :: bool
  cp_created_at :: "datetime option"
  cp_user_id :: "int option"
  cp_session_state :: pydict
  cp_conversation_history :: "pydict list"
  cp_tool_invocations :: "pydict list"
  cp_metadata :: pydict

section \<open>The diff module (\<open>checkpoints/diff.py\<close>)\<close>

datatype change_type = ADDED | REMOVED | MODIFIED

record state_change =
  path :: string
  change_type :: change_type
  old_value :: pyval
  new_value :: pyval

record tool_invocation_change =
  index :: nat
  tool_name :: pyval
  args :: pyval
  result :: pyval
  success :: pyval
  error_message :: pyval

record conversation_diff =
  old_length :: nat
  new_length :: nat
  messages_added :: int
  new_messages :: "pydict list"

record metadata_diff =
  old_metadata :: pydict
  new_metadata :: pydict

record diff_report =
  checkpoint_a_id :: "int option"
  checkpoint_b_id :: "int option"
  state_changes :: "state_change list"
  tool_invocations :: "tool_invocation_change list"
  conversation_diff :: conversation_diff
  metadata_diff :: metadata_diff

text \<open>
  \<open>_flatten_dict\<close>: \<open>flatten_items\<close> is the loop that collects the items,
  \<open>flatten_dict\<close> the \<open>dict(items)\<close> it returns.
\<close>

function flatten_items :: "pydict \<Rightarrow> string \<Rightarrow> (string \<times> pyval) list" where
  "flatten_items [] parent_key = []"
| "flatten_items ((k, v) # d) parent_key =
     (case v of
        PDict sub \<Rightarrow>
          dict_of_items
            (flatten_items sub (if parent_key \<noteq> [] then parent_key @ ''.'' @ k else k))
      | _ \<Rightarrow> [(if parent_key \<noteq> [] then parent_key @ ''.'' @ k else k, v)])
     @ flatten_items d parent_key"
  by pat_completeness auto
termination
  by (relation "measure (\<lambda>(d, p). size_list (size_prod (\<lambda>_. 0) size) d)") auto

definition flatten_dict :: "pydict \<Rightarrow> string \<Rightarrow> pydict" where
  "flatten_dict d parent_key = dict_of_items (flatten_items d parent_key)"

text \<open>\<open>_compare_dicts\<close>: one pass over the sorted union of the flattened keys.\<close>

definition compare_key :: "pydict \<Rightarrow> pydict \<Rightarrow> string \<Rightarrow> state_change list" where
  "compare_key old_flat new_flat key =
     (let old_val = dict_get_default old_flat key PNone;
          new_val = dict_get_default new_flat key PNone
      in if dict_get old_flat key = None then
           [\<lparr>path = key, change_type = ADDED, old_value = PNone, new_value = new_val\<rparr>]
         else if dict_get new_flat key = None then
           [\<lparr>path = key, change_type = REMOVED, old_value = old_val, new_value = PNone\<rparr>]
         else if \<not> py_eq old_val new_val then
           [\<lparr>path = key, change_type = MODIFIED, old_value = old_val, new_value = new_val\<rparr>]
         else [])"

definition compare_dicts :: "pydict \<Rightarrow> pydict \<Rightarrow> state_change list" where
  "compare_dicts old new =
     (let old_flat = flatten_dict old [];
          new_flat = flatten_dict new [];
          all_keys = remdups (map fst old_flat @ map fst new_flat)
      in concat (map (compare_key old_flat new_flat) (sort all_keys)))"

text \<open>\<open>_compare_tool_invocations\<close>: the records of \<open>new_tools\<close> from \<open>old_count\<close> on.\<close>

definition tool_change :: "nat \<Rightarrow> pydict \<Rightarrow> tool_invocation_change" where
  "tool_change idx tool_inv =
     \<lparr>index = idx,
      tool_name =
        dict_get_default tool_inv ''tool_name''
          (dict_get_default tool_inv ''tool'' (PStr ''unknown'')),
      args = dict_get_default tool_inv ''args'' (PDict []),
      result = dict_get_default tool_inv ''result'' PNone,
      success = dict_get_default tool_inv ''success'' (PBool True),
      error_message = dict_get_default tool_inv ''error_message'' PNone\<rparr>"

fun enumerate_from :: "nat \<Rightarrow> 'a list \<Rightarrow> (nat \<times> 'a) list" where
  "enumerate_from start [] = []"
| "enumerate_from start (x # xs) = (start, x) # enumerate_from (Suc start) xs"

definition compare_tool_invocations ::
  "pydict list \<Rightarrow> pydict list \<Rightarrow> tool_invocation_change list" where
  "compare_tool_invocations old_tools new_tools =
     (let old_count = length old_tools;
          new_tools_after = drop old_count new_tools
      in map (\<lambda>(idx, tool_inv). tool_change idx tool_inv)
           (enumerate_from old_count new_tools_after))"

definition compare_conversations :: "pydict list \<Rightarrow> pydict list \<Rightarrow> conversation_diff" where
  "compare_conversations old_history new_history =
     (let old_count = length old_history;
          new_count = length new_history
      in \<lparr>old_length = old_count,
          new_length = new_count,
          messages_added = int new_count - int old_count,
          new_messages = (if new_count > old_count then drop old_count new_history else [])\<rparr>)"

text \<open>
  \<open>_order_checkpoints\<close>. A key decides as soon as its guard holds: \<open>created_at\<close> when
  both values are set, \<open>id\<close> when both are set, then the two lengths when they differ.
\<close>

definition order_checkpoints ::
  "checkpoint \<Rightarrow> checkpoint \<Rightarrow> error + (checkpoint \<times> checkpoint)" where
  "order_checkpoints checkpoint_a checkpoint_b =
     (case (cp_created_at checkpoint_a, cp_created_at checkpoint_b) of
        (Some created_a, Some created_b) \<Rightarrow>
          (case dt_le created_a created_b of
             Inl e \<Rightarrow> Inl e
           | Inr le \<Rightarrow>
               if le then Inr (checkpoint_a, checkpoint_b) else Inr (checkpoint_b, checkpoint_a))
      | _ \<Rightarrow>
          (case (cp_id checkpoint_a, cp_id checkpoint_b) of
             (Some id_a, Some id_b) \<Rightarrow>
               if id_a \<le> id_b then Inr (checkpoint_a, checkpoint_b)
               else Inr (checkpoint_b, checkpoint_a)
           | _ \<Rightarrow>
               (let history_a = cp_conversation_history checkpoint_a;
                    history_b = cp_conversation_history checkpoint_b;
                    tools_a = cp_tool_invocations checkpoint_a;
                    tools_b = cp_tool_invocations checkpoint_b
                in if length history_a \<noteq> length history_b then
                     (if length history_a \<le> length history_b
                      then Inr (checkpoint_a, checkpoint_b)
                      else Inr (checkpoint_b, checkpoint_a))
                   else if length tools_a \<noteq> length tools_b then
                     (if length tools_a \<le> length tools_b
                      then Inr (checkpoint_a, checkpoint_b)
                      else Inr (checkpoint_b, checkpoint_a))
                   else Inr (checkpoint_a, checkpoint_b))))"

definition build_report :: "checkpoint \<Rightarrow> checkpoint \<Rightarrow> diff_report" where
  "build_report older newer =
     \<lparr>checkpoint_a_id = cp_id older,
      checkpoint_b_id = cp_id newer,
      state_changes = compare_dicts (cp_session_state older) (cp_session_state newer),
      tool_invocations =
        compare_tool_invocations (cp_tool_invocations older) (cp_tool_invocations newer),
      conversation_diff =
        compare_conversations (cp_conversation_history older) (cp_conversation_history newer),
      metadata_diff = \<lparr>old_metadata = cp_metadata older, new_metadata = cp_metadata newer\<rparr>\<rparr>"

definition compare_checkpoints :: "checkpoint \<Rightarrow> checkpoint \<Rightarrow> error + diff_report" where
  "compare_checkpoints checkpoint_a checkpoint_b =
     (case order_checkpoints checkpoint_a checkpoint_b of
        Inl e \<Rightarrow> Inl e
      | Inr (older, newer) \<Rightarrow> Inr (build_report older newer))"

section \<open>The database (\<open>database/models.py\<close>, \<open>database/db_config.py\<close>)\<close>

text \<open>
  The rows of \<open>internal_sessions\<close> and \<open>checkpoints\<close> carry the columns of the ORM
  models. Of the tables \<open>users\<close> and \<open>external_sessions\<close> only the primary keys matter
  here: they are what the foreign keys of the other two tables refer to.
\<close>

record internal_session_row =
  ism_id :: int
  ism_external_session_id :: int
  ism_langgraph_session_id :: string
  ism_state_data :: pydict
  ism_conversation_history :: "pydict list"
  ism_created_at :: datetime
  ism_is_current :: bool
  ism_checkpoint_count :: int
  ism_parent_session_id :: "int option"
  ism_branch_point_checkpoint_id :: "int option"
  ism_tool_invocation_count :: int
  ism_session_metadata :: pydict

record checkpoint_row =
  cpm_id :: int
  cpm_internal_session_id :: int
  cpm_checkpoint_name :: "string option"
  cpm_checkpoint_data :: pydict
  cpm_is_auto :: bool
  cpm_created_at :: datetime
  cpm_user_id :: "int option"

text \<open>
  The two backends of \<open>db_config.py\<close>: the SQLite file, which is the default, and
  PostgreSQL. The columns \<open>created_at\<close> are declared \<open>DateTime(timezone=True)\<close> with the
  Python-side default \<open>datetime.now(timezone.utc)\<close>. SQLite has no type that keeps a
  timezone: the value is stored as the text of its date and time, and is read back as a
  naive \<open>datetime\<close>. PostgreSQL stores it as \<open>TIMESTAMP WITH TIME ZONE\<close> and reads it
  back aware. The instant is the same in both.
\<close>

datatype backend = Sqlite | Postgresql

definition stored_datetime :: "backend \<Rightarrow> datetime \<Rightarrow> datetime" where
  "stored_datetime b t =
     (case b of Sqlite \<Rightarrow> t\<lparr>tz_aware := False\<rparr> | Postgresql \<Rightarrow> t\<lparr>tz_aware := True\<rparr>)"

record database =
  backend :: backend
  users :: "int list"
  external_sessions :: "int list"
  internal_sessions :: "internal_session_row list"
  checkpoints :: "checkpoint_row list"

text \<open>
  A SQLAlchemy session: its view of the database (what is stored, with the changes the
  session has made and not yet committed), the state of its transaction, and whether it
  has been closed.
\<close>

datatype transaction = Active | Committed | Rolled_back

record db_session =
  pending :: database
  tx_state :: transaction
  is_closed :: bool

definition session_local :: "database \<Rightarrow> db_session" where
  "session_local db = \<lparr>pending = db, tx_state = Active, is_closed = False\<rparr>"

definition session_commit :: "db_session \<Rightarrow> db_session" where
  "session_commit session = session\<lparr>tx_state := Committed\<rparr>"

definition session_rollback :: "database \<Rightarrow> db_session \<Rightarrow> db_session" where
  "session_rollback stored session = session\<lparr>pending := stored, tx_state := Rolled_back\<rparr>"

definition session_close :: "db_session \<Rightarrow> db_session" where
  "session_close session = session\<lparr>is_closed := True\<rparr>"

text \<open>
  \<open>get_db_connection\<close>, the context manager: \<open>session = SessionLocal()\<close>, then
  \<open>try: yield session; session.commit()\<close>, \<open>except Exception: session.rollback(); raise\<close>,
  \<open>finally: session.close()\<close>. The body of the \<open>with\<close> block works on the view of the
  session and returns its outcome together with the view it leaves, also when it raises.
  \<open>commit_fails\<close> tells whether \<open>session.commit()\<close> raises (the connection is lost, the
  database is locked); the exception is then an \<open>OperationalError\<close>, and it passes
  through the same \<open>except\<close> clause. \<open>run_session\<close> returns the outcome of the block and
  the session as the block leaves it; the database after the block is the view of that
  session.
\<close>

definition run_session ::
  "bool \<Rightarrow> (database \<Rightarrow> (error + 'a) \<times> database) \<Rightarrow> database \<Rightarrow> (error + 'a) \<times> db_session" where
  "run_session commit_fails body db =
     (let session = session_local db;
          (outcome, view) = body (pending session);
          session1 = session\<lparr>pending := view\<rparr>
      in case outcome of
           Inr r \<Rightarrow>
             if commit_fails
             then (Inl OperationalError, session_close (session_rollback db session1))
             else (Inr r, session_close (session_commit session1))
         | Inl e \<Rightarrow> (Inl e, session_close (session_rollback db session1)))"

definition get_db_connection_failing ::
  "bool \<Rightarrow> (database \<Rightarrow> (error + 'a) \<times> database) \<Rightarrow> database \<Rightarrow> (error + 'a) \<times> database" where
  "get_db_connection_failing commit_fails body db =
     (let (outcome, session) = run_session commit_fails body db
      in (outcome, pending session))"

text \<open>The block when the commit succeeds.\<close>

definition get_db_connection ::
  "(database \<Rightarrow> (error + 'a) \<times> database) \<Rightarrow> database \<Rightarrow> (error + 'a) \<times> database" where
  "get_db_connection body db = get_db_connection_failing False body db"

text \<open>An autoincrement primary key: one more than the largest key of the table.\<close>

definition next_id :: "int list \<Rightarrow> int" where
  "next_id ids = fold max ids 0 + 1"

text \<open>Python's truth value of an optional integer: \<open>None\<close> and \<open>0\<close> are false.\<close>

definition truthy :: "int option \<Rightarrow> bool" where
  "truthy x = (case x of None \<Rightarrow> False | Some i \<Rightarrow> i \<noteq> 0)"

text \<open>\<open>query.first()\<close>: the first row of the result, or \<open>None\<close>.\<close>

definition first :: "'a list \<Rightarrow> 'a option" where
  "first rows = (case rows of [] \<Rightarrow> None | r # _ \<Rightarrow> Some r)"

section \<open>\<open>InternalSessionRepository\<close>\<close>

text \<open>
  Modelled from the spec: the \<open>InternalSession\<close> dataclass of
  \<open>agentgit.sessions.internal_session\<close> is not among the sources. Its attributes are
  those of the data model, as \<open>_row_to_session\<close> fills them.
\<close>

record internal_session =
  ins_id :: "int option"
  ins_external_session_id :: int
  ins_langgraph_session_id :: string
  ins_session_state :: pydict
  ins_conversation_history :: "pydict list"
  ins_created_at :: "datetime option"
  ins_is_current :: bool
  ins_checkpoint_count :: int
  ins_parent_session_id :: "int option"
  ins_branch_point_checkpoint_id :: "int option"
  ins_tool_invocation_count :: int
  ins_metadata :: pydict

definition row_to_session :: "internal_session_row \<Rightarrow> internal_session" where
  "row_to_session db_sess =
     \<lparr>ins_id = Some (ism_id db_sess),
      ins_external_session_id = ism_external_session_id db_sess,
      ins_langgraph_session_id = ism_langgraph_session_id db_sess,
      ins_session_state = ism_state_data db_sess,
      ins_conversation_history = ism_conversation_history db_sess,
      ins_created_at = Some (ism_created_at db_sess),
      ins_is_current = ism_is_current db_sess,
      ins_checkpoint_count = ism_checkpoint_count db_sess,
      ins_parent_session_id = ism_parent_session_id db_sess,
      ins_branch_point_checkpoint_id = ism_branch_point_checkpoint_id db_sess,
      ins_tool_invocation_count = ism_tool_invocation_count db_sess,
      ins_metadata = ism_session_metadata db_sess\<rparr>"

text \<open>
  \<open>_mark_all_not_current\<close>: one block of its own. The filter on \<open>exclude_id\<close> is added
  only when \<open>exclude_id\<close> is true as a Python value.
\<close>

definition clear_current ::
  "int \<Rightarrow> int option \<Rightarrow> internal_session_row \<Rightarrow> internal_session_row" where
  "clear_current external_session_id exclude_id r =
     (if ism_external_session_id r = external_session_id
         \<and> (if truthy exclude_id then Some (ism_id r) \<noteq> exclude_id else True)
      then r\<lparr>ism_is_current := False\<rparr> else r)"

definition mark_all_not_current_body ::
  "int \<Rightarrow> int option \<Rightarrow> database \<Rightarrow> (error + unit) \<times> database" where
  "mark_all_not_current_body external_session_id exclude_id db =
     (Inr (), db\<lparr>internal_sessions :=
                   map (clear_current external_session_id exclude_id)
                     (internal_sessions db)\<rparr>)"

definition mark_all_not_current ::
  "int \<Rightarrow> int option \<Rightarrow> database \<Rightarrow> (error + unit) \<times> database" where
  "mark_all_not_current external_session_id exclude_id =
     get_db_connection (mark_all_not_current_body external_session_id exclude_id)"

text \<open>
  What the flush of a new \<open>internal_sessions\<close> row checks: the foreign keys
  (\<open>external_session_id\<close>, \<open>parent_session_id\<close>, \<open>branch_point_checkpoint_id\<close>) and the
  unique index on \<open>langgraph_session_id\<close>.
\<close>

definition internal_session_insertable :: "database \<Rightarrow> internal_session \<Rightarrow> bool" where
  "internal_session_insertable db session =
     (ins_external_session_id session \<in> set (external_sessions db)
      \<and> ins_langgraph_session_id session
          \<notin> set (map ism_langgraph_session_id (internal_sessions db))
      \<and> (case ins_parent_session_id session of
            None \<Rightarrow> True
          | Some p \<Rightarrow> p \<in> set (map ism_id (internal_sessions db)))
      \<and> (case ins_branch_point_checkpoint_id session of
            None \<Rightarrow> True
          | Some c \<Rightarrow> c \<in> set (map cpm_id (checkpoints db))))"

text \<open>
  \<open>InternalSessionRepository.create\<close>; \<open>now\<close> is the clock reading that the column default
  of \<open>created_at\<close> takes. The siblings are cleared in a first block, the row is inserted
  in a second one: the row is added to the session, and the flush either raises or gives
  the row its id. The session object takes the \<open>created_at\<close> of the ORM object, which is
  the value the default produced; the table holds what the backend stores of it.
\<close>

definition create_internal_session_body ::
  "internal_session \<Rightarrow> datetime \<Rightarrow> database \<Rightarrow> (error + internal_session) \<times> database" where
  "create_internal_session_body session now db =
     (let new_id = next_id (map ism_id (internal_sessions db));
          db_internal_session =
            \<lparr>ism_id = new_id,
             ism_external_session_id = ins_external_session_id session,
             ism_langgraph_session_id = ins_langgraph_session_id session,
             ism_state_data = ins_session_state session,
             ism_conversation_history = ins_conversation_history session,
             ism_created_at = stored_datetime (backend db) now,
             ism_is_current = ins_is_current session,
             ism_checkpoint_count = ins_checkpoint_count session,
             ism_parent_session_id = ins_parent_session_id session,
             ism_branch_point_checkpoint_id = ins_branch_point_checkpoint_id session,
             ism_tool_invocation_count = ins_tool_invocation_count session,
             ism_session_metadata = ins_metadata session\<rparr>;
          db1 = db\<lparr>internal_sessions := internal_sessions db @ [db_internal_session]\<rparr>
      in if \<not> internal_session_insertable db session then (Inl IntegrityError, db1)
         else (Inr (session\<lparr>ins_id := Some new_id, ins_created_at := Some now\<rparr>), db1))"

definition create_internal_session ::
  "internal_session \<Rightarrow> datetime \<Rightarrow> database \<Rightarrow> (error + internal_session) \<times> database" where
  "create_internal_session session now db =
     (case (if ins_is_current session
            then mark_all_not_current (ins_external_session_id session) None db
            else (Inr (), db)) of
        (Inl e, db1) \<Rightarrow> (Inl e, db1)
      | (Inr u, db1) \<Rightarrow> get_db_connection (create_internal_session_body session now) db1)"

text \<open>\<open>InternalSessionRepository.update\<close>.\<close>

definition write_session :: "internal_session \<Rightarrow> internal_session_row \<Rightarrow> internal_session_row" where
  "write_session session db_internal_session =
     db_internal_session
       \<lparr>ism_state_data := ins_session_state session,
        ism_conversation_history := ins_conversation_history session,
        ism_is_current := ins_is_current session,
        ism_checkpoint_count := ins_checkpoint_count session,
        ism_tool_invocation_count := ins_tool_invocation_count session,
        ism_session_metadata := ins_metadata session\<rparr>"

fun update_first ::
  "('a \<Rightarrow> bool) \<Rightarrow> ('a \<Rightarrow> 'a) \<Rightarrow> 'a list \<Rightarrow> 'a list" where
  "update_first P f [] = []"
| "update_first P f (r # rows) = (if P r then f r # rows else r # update_first P f rows)"

definition update_internal_session_body ::
  "internal_session \<Rightarrow> database \<Rightarrow> (error + bool) \<times> database" where
  "update_internal_session_body session db =
     (case first (filter (\<lambda>r. Some (ism_id r) = ins_id session) (internal_sessions db)) of
        Some db_internal_session \<Rightarrow>
          (Inr True,
           db\<lparr>internal_sessions :=
                update_first (\<lambda>r. Some (ism_id r) = ins_id session)
                  (write_session session) (internal_sessions db)\<rparr>)
      | None \<Rightarrow> (Inr False, db))"

definition update_internal_session ::
  "internal_session \<Rightarrow> database \<Rightarrow> (error + bool) \<times> database" where
  "update_internal_session session db =
     (if \<not> truthy (ins_id session) then (Inr False, db)
      else
        (case (if ins_is_current session
               then mark_all_not_current (ins_external_session_id session) (ins_id session) db
               else (Inr (), db)) of
           (Inl e, db1) \<Rightarrow> (Inl e, db1)
         | (Inr u, db1) \<Rightarrow> get_db_connection (update_internal_session_body session) db1))"

text \<open>\<open>InternalSessionRepository.get_by_id\<close>.\<close>

definition get_internal_session_by_id_body ::
  "int \<Rightarrow> database \<Rightarrow> (error + internal_session option) \<times> database" where
  "get_internal_session_by_id_body session_id db =
     (case first (filter (\<lambda>r. ism_id r = session_id) (internal_sessions db)) of
        Some db_internal_session \<Rightarrow> (Inr (Some (row_to_session db_internal_session)), db)
      | None \<Rightarrow> (Inr None, db))"

definition get_internal_session_by_id ::
  "int \<Rightarrow> database \<Rightarrow> (error + internal_session option) \<times> database" where
  "get_internal_session_by_id session_id =
     get_db_connection (get_internal_session_by_id_body session_id)"

text \<open>
  \<open>InternalSessionRepository.set_current_session\<close>: three blocks, the lookup, the
  clearing of the siblings and the setting of the flag.
\<close>

definition set_current_session_body :: "int \<Rightarrow> database \<Rightarrow> (error + bool) \<times> database" where
  "set_current_session_body session_id db =
     (case first (filter (\<lambda>r. ism_id r = session_id) (internal_sessions db)) of
        Some db_internal_session \<Rightarrow>
          (Inr True,
           db\<lparr>internal_sessions :=
                update_first (\<lambda>r. ism_id r = session_id)
                  (\<lambda>r. r\<lparr>ism_is_current := True\<rparr>) (internal_sessions db)\<rparr>)
      | None \<Rightarrow> (Inr False, db))"

definition set_current_session :: "int \<Rightarrow> database \<Rightarrow> (error + bool) \<times> database" where
  "set_current_session session_id db =
     (case get_internal_session_by_id session_id db of
        (Inl e, db0) \<Rightarrow> (Inl e, db0)
      | (Inr None, db0) \<Rightarrow> (Inr False, db0)
      | (Inr (Some session), db0) \<Rightarrow>
          (case mark_all_not_current (ins_external_session_id session) None db0 of
             (Inl e, db1) \<Rightarrow> (Inl e, db1)
           | (Inr u, db1) \<Rightarrow> get_db_connection (set_current_session_body session_id) db1))"

section \<open>\<open>CheckpointRepository\<close>\<close>

text \<open>
  \<open>ORDER BY created_at DESC, id DESC\<close>: the database orders the timestamps of a column
  by their instants.
\<close>

definition order_key :: "checkpoint_row \<Rightarrow> int \<times> int" where
  "order_key r = (instant (cpm_created_at r), cpm_id r)"

definition order_by_created_desc_id_desc :: "checkpoint_row list \<Rightarrow> checkpoint_row list" where
  "order_by_created_desc_id_desc rows = rev (sort_key order_key rows)"

text \<open>
  \<open>_row_to_checkpoint\<close>. \<open>Checkpoint.from_dict\<close> belongs to the dataclass that is not
  among the sources and is a parameter, as are \<open>Checkpoint.to_dict\<close> and the standard
  library's \<open>datetime.isoformat\<close> below.
\<close>

definition row_to_checkpoint :: "(pydict \<Rightarrow> checkpoint) \<Rightarrow> checkpoint_row \<Rightarrow> checkpoint" where
  "row_to_checkpoint from_dict db_cp = (from_dict (cpm_checkpoint_data db_cp))\<lparr>cp_id := Some (cpm_id db_cp)\<rparr>"

text \<open>
  What the flush of a new \<open>checkpoints\<close> row checks: the foreign keys
  \<open>internal_session_id\<close> and \<open>user_id\<close>.
\<close>

definition checkpoint_insertable :: "database \<Rightarrow> checkpoint \<Rightarrow> bool" where
  "checkpoint_insertable db checkpoint =
     (cp_internal_session_id checkpoint \<in> set (map ism_id (internal_sessions db))
      \<and> (case cp_user_id checkpoint of None \<Rightarrow> True | Some u \<Rightarrow> u \<in> set (users db)))"

text \<open>
  \<open>CheckpointRepository.create\<close>, one block: the row is added to the session with the
  payload \<open>checkpoint.to_dict()\<close>, and the flush either raises or gives the row its id
  and its \<open>created_at\<close>, the default \<open>now\<close>. The checkpoint takes the \<open>created_at\<close> of the
  ORM object, and the payload of the row is patched with the ISO form of that value. The
  table holds what the backend stores of the column.
\<close>

definition create_checkpoint_body ::
  "(checkpoint \<Rightarrow> pydict) \<Rightarrow> (datetime \<Rightarrow> string) \<Rightarrow> checkpoint \<Rightarrow> datetime \<Rightarrow> database
     \<Rightarrow> (error + checkpoint) \<times> database" where
  "create_checkpoint_body to_dict isoformat checkpoint now db =
     (let checkpoint_dict = to_dict checkpoint;
          db_checkpoint =
            \<lparr>cpm_id = next_id (map cpm_id (checkpoints db)),
             cpm_internal_session_id = cp_internal_session_id checkpoint,
             cpm_checkpoint_name = cp_checkpoint_name checkpoint,
             cpm_checkpoint_data = checkpoint_dict,
             cpm_is_auto = cp_is_auto checkpoint,
             cpm_created_at = stored_datetime (backend db) now,
             cpm_user_id = cp_user_id checkpoint\<rparr>
      in if \<not> checkpoint_insertable db checkpoint
         then (Inl IntegrityError, db\<lparr>checkpoints := checkpoints db @ [db_checkpoint]\<rparr>)
         else
           (let checkpoint1 =
                  checkpoint\<lparr>cp_id := Some (cpm_id db_checkpoint), cp_created_at := Some now\<rparr>;
                db_checkpoint1 =
                  db_checkpoint\<lparr>cpm_checkpoint_data :=
                    dict_set (cpm_checkpoint_data db_checkpoint) ''created_at''
                      (PStr (isoformat now))\<rparr>
            in (Inr checkpoint1, db\<lparr>checkpoints := checkpoints db @ [db_checkpoint1]\<rparr>)))"

definition create_checkpoint ::
  "(checkpoint \<Rightarrow> pydict) \<Rightarrow> (datetime \<Rightarrow> string) \<Rightarrow> checkpoint \<Rightarrow> datetime \<Rightarrow> database
     \<Rightarrow> (error + checkpoint) \<times> database" where
  "create_checkpoint to_dict isoformat checkpoint now =
     get_db_connection (create_checkpoint_body to_dict isoformat checkpoint now)"

text \<open>\<open>CheckpointRepository.get_by_id\<close>.\<close>

definition get_checkpoint_by_id_body ::
  "(pydict \<Rightarrow> checkpoint) \<Rightarrow> int \<Rightarrow> database \<Rightarrow> (error + checkpoint option) \<times> database" where
  "get_checkpoint_by_id_body from_dict checkpoint_id db =
     (case first (filter (\<lambda>r. cpm_id r = checkpoint_id) (checkpoints db)) of
        Some db_checkpoint \<Rightarrow> (Inr (Some (row_to_checkpoint from_dict db_checkpoint)), db)
      | None \<Rightarrow> (Inr None, db))"

definition get_checkpoint_by_id ::
  "(pydict \<Rightarrow> checkpoint) \<Rightarrow> int \<Rightarrow> database \<Rightarrow> (error + checkpoint option) \<times> database" where
  "get_checkpoint_by_id from_dict checkpoint_id =
     get_db_connection (get_checkpoint_by_id_body from_dict checkpoint_id)"

text \<open>
  \<open>CheckpointRepository.update_checkpoint_metadata\<close>: the checkpoint is read in one
  block (\<open>get_by_id\<close>), \<open>metadata\<close> is merged into its metadata with \<open>dict.update\<close>, and
  a second block replaces the payload of the row by \<open>checkpoint.to_dict()\<close>.
\<close>

definition dict_update :: "pydict \<Rightarrow> pydict \<Rightarrow> pydict" where
  "dict_update d other = foldl (\<lambda>d (k, v). dict_set d k v) d other"

definition update_checkpoint_metadata_body ::
  "int \<Rightarrow> pydict \<Rightarrow> database \<Rightarrow> (error + bool) \<times> database" where
  "update_checkpoint_metadata_body checkpoint_id checkpoint_dict db =
     (case first (filter (\<lambda>r. cpm_id r = checkpoint_id) (checkpoints db)) of
        Some db_checkpoint \<Rightarrow>
          (Inr True,
           db\<lparr>checkpoints :=
                update_first (\<lambda>r. cpm_id r = checkpoint_id)
                  (\<lambda>r. r\<lparr>cpm_checkpoint_data := checkpoint_dict\<rparr>) (checkpoints db)\<rparr>)
      | None \<Rightarrow> (Inr False, db))"

definition update_checkpoint_metadata ::
  "(checkpoint \<Rightarrow> pydict) \<Rightarrow> (pydict \<Rightarrow> checkpoint) \<Rightarrow> int \<Rightarrow> pydict \<Rightarrow> database
     \<Rightarrow> (error + bool) \<times> database" where
  "update_checkpoint_metadata to_dict from_dict checkpoint_id metadata db =
     (case get_checkpoint_by_id from_dict checkpoint_id db of
        (Inl e, db0) \<Rightarrow> (Inl e, db0)
      | (Inr None, db0) \<Rightarrow> (Inr False, db0)
      | (Inr (Some checkpoint), db0) \<Rightarrow>
          (let checkpoint1 =
                 checkpoint\<lparr>cp_metadata := dict_update (cp_metadata checkpoint) metadata\<rparr>;
               checkpoint_dict = to_dict checkpoint1
           in get_db_connection
                (update_checkpoint_metadata_body checkpoint_id checkpoint_dict) db0))"

text \<open>\<open>CheckpointRepository.get_by_internal_session\<close>.\<close>

definition query_by_internal_session :: "database \<Rightarrow> int \<Rightarrow> bool \<Rightarrow> checkpoint_row list" where
  "query_by_internal_session db internal_session_id auto_only =
     (let query = filter (\<lambda>r. cpm_internal_session_id r = internal_session_id) (checkpoints db);
          query1 = (if auto_only then filter cpm_is_auto query else query)
      in order_by_created_desc_id_desc query1)"

definition get_by_internal_session ::
  "(pydict \<Rightarrow> checkpoint) \<Rightarrow> int \<Rightarrow> bool \<Rightarrow> database \<Rightarrow> (error + checkpoint list) \<times> database" where
  "get_by_internal_session from_dict internal_session_id auto_only =
     get_db_connection (\<lambda>db.
       (Inr (map (row_to_checkpoint from_dict)
               (query_by_internal_session db internal_session_id auto_only)), db))"

text \<open>\<open>CheckpointRepository.get_latest_checkpoint\<close>.\<close>

definition get_latest_checkpoint ::
  "(pydict \<Rightarrow> checkpoint) \<Rightarrow> int \<Rightarrow> database \<Rightarrow> (error + checkpoint option) \<times> database" where
  "get_latest_checkpoint from_dict internal_session_id =
     get_db_connection (\<lambda>db.
       (case first (order_by_created_desc_id_desc
                      (filter (\<lambda>r. cpm_internal_session_id r = internal_session_id)
                         (checkpoints db))) of
          Some db_checkpoint \<Rightarrow> (Inr (Some (row_to_checkpoint from_dict db_checkpoint)), db)
        | None \<Rightarrow> (Inr None, db)))"



text \<open>
  A bulk \<open>DELETE\<close> on \<open>checkpoints\<close>: the rows that satisfy the condition go, the
  \<open>branch_point_checkpoint_id\<close> of an internal session that referred to one of them is
  set to null (\<open>ON DELETE SET NULL\<close>), and the number of deleted rows is returned.
\<close>

definition delete_checkpoints_where ::
  "(checkpoint_row \<Rightarrow> bool) \<Rightarrow> database \<Rightarrow> nat \<times> database" where
  "delete_checkpoints_where cond db =
     (let gone = filter cond (checkpoints db)
      in (length gone,
          db\<lparr>checkpoints := filter (\<lambda>r. \<not> cond r) (checkpoints db),
             internal_sessions :=
               map (\<lambda>s. case ism_branch_point_checkpoint_id s of
                           None \<Rightarrow> s
                         | Some c \<Rightarrow>
                             if c \<in> set (map cpm_id gone)
                             then s\<lparr>ism_branch_point_checkpoint_id := None\<rparr> else s)
                 (internal_sessions db)\<rparr>))"

text \<open>\<open>CheckpointRepository.delete_auto_checkpoints\<close>.\<close>

definition delete_auto_checkpoints ::
  "int \<Rightarrow> nat \<Rightarrow> database \<Rightarrow> (error + nat) \<times> database" where
  "delete_auto_checkpoints internal_session_id keep_latest =
     get_db_connection (\<lambda>db.
       (let keep_checkpoints =
              take keep_latest
                (order_by_created_desc_id_desc
                   (filter (\<lambda>r. cpm_internal_session_id r = internal_session_id \<and> cpm_is_auto r)
                      (checkpoints db)));
            keep_ids = map cpm_id keep_checkpoints
        in if keep_ids \<noteq> [] then
             (case delete_checkpoints_where
                     (\<lambda>r. cpm_internal_session_id r = internal_session_id \<and> cpm_is_auto r
                          \<and> cpm_id r \<notin> set keep_ids) db of
                (deleted, db1) \<Rightarrow> (Inr deleted, db1))
           else
             (case delete_checkpoints_where
                     (\<lambda>r. cpm_internal_session_id r = internal_session_id \<and> cpm_is_auto r) db of
                (deleted, db1) \<Rightarrow> (Inr deleted, db1))))"

section \<open>Operations of several blocks when a commit fails\<close>

text \<open>
  The operations that open more than one \<open>with get_db_connection\<close> block, with the
  commits that may fail: \<open>fails k\<close> tells whether the commit of the block that stands
  at position \<open>k\<close> in the text of the operation (from 0) raises. An exception leaves the
  operation at once, so the blocks after it do not run. With \<open>fails\<close> false everywhere
  these are the operations of the sections above.
\<close>

definition mark_all_not_current_failing ::
  "bool \<Rightarrow> int \<Rightarrow> int option \<Rightarrow> database \<Rightarrow> (error + unit) \<times> database" where
  "mark_all_not_current_failing commit_fails external_session_id exclude_id =
     get_db_connection_failing commit_fails
       (mark_all_not_current_body external_session_id exclude_id)"

definition create_internal_session_failing ::
  "(nat \<Rightarrow> bool) \<Rightarrow> internal_session \<Rightarrow> datetime \<Rightarrow> database
     \<Rightarrow> (error + internal_session) \<times> database" where
  "create_internal_session_failing fails session now db =
     (case (if ins_is_current session
            then mark_all_not_current_failing (fails 0) (ins_external_session_id session) None db
            else (Inr (), db)) of
        (Inl e, db1) \<Rightarrow> (Inl e, db1)
      | (Inr u, db1) \<Rightarrow>
          get_db_connection_failing (fails 1) (create_internal_session_body session now) db1)"

definition update_internal_session_failing ::
  "(nat \<Rightarrow> bool) \<Rightarrow> internal_session \<Rightarrow> database \<Rightarrow> (error + bool) \<times> database" where
  "update_internal_session_failing fails session db =
     (if \<not> truthy (ins_id session) then (Inr False, db)
      else
        (case (if ins_is_current session
               then mark_all_not_current_failing (fails 0)
                      (ins_external_session_id session) (ins_id session) db
               else (Inr (), db)) of
           (Inl e, db1) \<Rightarrow> (Inl e, db1)
         | (Inr u, db1) \<Rightarrow>
             get_db_connection_failing (fails 1) (update_internal_session_body session) db1))"

definition set_current_session_failing ::
  "(nat \<Rightarrow> bool) \<Rightarrow> int \<Rightarrow> database \<Rightarrow> (error + bool) \<times> database" where
  "set_current_session_failing fails session_id db =
     (case get_db_connection_failing (fails 0) (get_internal_session_by_id_body session_id) db of
        (Inl e, db0) \<Rightarrow> (Inl e, db0)
      | (Inr None, db0) \<Rightarrow> (Inr False, db0)
      | (Inr (Some session), db0) \<Rightarrow>
          (case mark_all_not_current_failing (fails 1) (ins_external_session_id session) None
                  db0 of
             (Inl e, db1) \<Rightarrow> (Inl e, db1)
           | (Inr u, db1) \<Rightarrow>
               get_db_connection_failing (fails 2) (set_current_session_body session_id) db1))"

definition update_checkpoint_metadata_failing ::
  "(nat \<Rightarrow> bool) \<Rightarrow> (checkpoint \<Rightarrow> pydict) \<Rightarrow> (pydict \<Rightarrow> checkpoint) \<Rightarrow> int \<Rightarrow> pydict
     \<Rightarrow> database \<Rightarrow> (error + bool) \<times> database" where
  "update_checkpoint_metadata_failing fails to_dict from_dict checkpoint_id metadata db =
     (case get_db_connection_failing (fails 0)
             (get_checkpoint_by_id_body from_dict checkpoint_id) db of
        (Inl e, db0) \<Rightarrow> (Inl e, db0)
      | (Inr None, db0) \<Rightarrow> (Inr False, db0)
      | (Inr (Some checkpoint), db0) \<Rightarrow>
          (let checkpoint1 =
                 checkpoint\<lparr>cp_metadata := dict_update (cp_metadata checkpoint) metadata\<rparr>;
               checkpoint_dict = to_dict checkpoint1
           in get_db_connection_failing (fails 1)
                (update_checkpoint_metadata_body checkpoint_id checkpoint_dict) db0))"

text \<open>
  Two blocks one after the other, as in the operations of \<open>ExternalSessionRepository\<close>
  that read a session with \<open>get_by_id\<close> and then call \<open>update\<close>: the second block runs
  on what the first has committed, with the value the first returned.
\<close>

definition two_blocks ::
  "bool \<Rightarrow> (database \<Rightarrow> (error + 'a) \<times> database)
     \<Rightarrow> bool \<Rightarrow> ('a \<Rightarrow> database \<Rightarrow> (error + 'b) \<times> database)
     \<Rightarrow> database \<Rightarrow> (error + 'b) \<times> database" where
  "two_blocks fails0 body0 fails1 body1 db =
     (case get_db_connection_failing fails0 body0 db of
        (Inl e, db0) \<Rightarrow> (Inl e, db0)
      | (Inr r, db0) \<Rightarrow> get_db_connection_failing fails1 (body1 r) db0)"

section \<open>Auxiliary notions for the properties\<close>

subsection \<open>Orderings of two checkpoints\<close>

text \<open>
  The cascade in the words of the specification: the keys \<open>created_at\<close>, \<open>id\<close>,
  \<open>len(conversation_history)\<close>, \<open>len(tool_invocations)\<close> are tried in this order, the
  first one that compares strictly decides, and a full tie resolves to the first argument.
\<close>

fun first_strict :: "(int option \<times> int option) list \<Rightarrow> bool option" where
  "first_strict [] = None"
| "first_strict ((Some x, Some y) # ks) =
     (if x < y then Some True else if y < x then Some False else first_strict ks)"
| "first_strict (k # ks) = first_strict ks"

definition cascade_order_checkpoints :: "checkpoint \<Rightarrow> checkpoint \<Rightarrow> checkpoint \<times> checkpoint" where
  "cascade_order_checkpoints a b =
     (case first_strict
             [(map_option instant (cp_created_at a), map_option instant (cp_created_at b)),
              (cp_id a, cp_id b),
              (Some (int (length (cp_conversation_history a))),
               Some (int (length (cp_conversation_history b)))),
              (Some (int (length (cp_tool_invocations a))),
               Some (int (length (cp_tool_invocations b))))] of
        Some False \<Rightarrow> (b, a)
      | _ \<Rightarrow> (a, b))"

text \<open>Both timestamps are set, one aware and one naive.\<close>

definition aware_mismatch :: "checkpoint \<Rightarrow> checkpoint \<Rightarrow> bool" where
  "aware_mismatch a b =
     (case (cp_created_at a, cp_created_at b) of
        (Some created_a, Some created_b) \<Rightarrow> tz_aware created_a \<noteq> tz_aware created_b
      | _ \<Rightarrow> False)"

text \<open>
  The values of the key that decides: \<open>created_at\<close> when it is set on both sides, else
  \<open>id\<close> when it is set on both sides, else the first of the two lengths that differs.
\<close>

definition deciding_keys :: "checkpoint \<Rightarrow> checkpoint \<Rightarrow> (int \<times> int) option" where
  "deciding_keys a b =
     (case (cp_created_at a, cp_created_at b) of
        (Some created_a, Some created_b) \<Rightarrow> Some (instant created_a, instant created_b)
      | _ \<Rightarrow>
          (case (cp_id a, cp_id b) of
             (Some id_a, Some id_b) \<Rightarrow> Some (id_a, id_b)
           | _ \<Rightarrow>
               if length (cp_conversation_history a) \<noteq> length (cp_conversation_history b)
               then Some (int (length (cp_conversation_history a)),
                          int (length (cp_conversation_history b)))
               else if length (cp_tool_invocations a) \<noteq> length (cp_tool_invocations b)
               then Some (int (length (cp_tool_invocations a)),
                          int (length (cp_tool_invocations b)))
               else None))"

definition tied_on_deciding_key :: "checkpoint \<Rightarrow> checkpoint \<Rightarrow> bool" where
  "tied_on_deciding_key a b = (case deciding_keys a b of Some (x, y) \<Rightarrow> x = y | None \<Rightarrow> False)"

definition strictly_ordered :: "checkpoint \<Rightarrow> checkpoint \<Rightarrow> bool" where
  "strictly_ordered a b = (case deciding_keys a b of Some (x, y) \<Rightarrow> x \<noteq> y | None \<Rightarrow> False)"

definition key_less :: "checkpoint \<Rightarrow> checkpoint \<Rightarrow> bool" where
  "key_less a b = (case deciding_keys a b of Some (x, y) \<Rightarrow> x < y | None \<Rightarrow> False)"

subsection \<open>Sample checkpoints\<close>

definition cp_blank :: checkpoint where
  "cp_blank =
     \<lparr>cp_id = None, cp_internal_session_id = 1, cp_checkpoint_name = None, cp_is_auto = False,
      cp_created_at = None, cp_user_id = None, cp_session_state = [],
      cp_conversation_history = [], cp_tool_invocations = [], cp_metadata = []\<rparr>"

definition cp_tie_a :: checkpoint where
  "cp_tie_a = cp_blank\<lparr>cp_id := Some 2, cp_created_at := Some \<lparr>instant = 1000, tz_aware = True\<rparr>\<rparr>"

definition cp_tie_b :: checkpoint where
  "cp_tie_b = cp_blank\<lparr>cp_id := Some 1, cp_created_at := Some \<lparr>instant = 1000, tz_aware = True\<rparr>\<rparr>"

definition cp_early_long :: checkpoint where
  "cp_early_long =
     cp_blank\<lparr>cp_id := Some 10, cp_created_at := Some \<lparr>instant = 1000, tz_aware = True\<rparr>,
              cp_conversation_history :=
                [[(''role'', PStr ''user''), (''content'', PStr ''Hello'')],
                 [(''role'', PStr ''assistant''), (''content'', PStr ''Hi'')]],
              cp_tool_invocations := [[(''tool_name'', PStr ''read_file'')]]\<rparr>"

definition cp_late_short :: checkpoint where
  "cp_late_short =
     cp_blank\<lparr>cp_id := Some 11, cp_created_at := Some \<lparr>instant = 2000, tz_aware = True\<rparr>,
              cp_conversation_history :=
                [[(''role'', PStr ''user''), (''content'', PStr ''Hello'')]],
              cp_tool_invocations :=
                [[(''tool_name'', PStr ''read_file'')],
                 [(''tool_name'', PStr ''write_file''), (''success'', PBool True)],
                 [(''tool'', PStr ''delete_file''), (''success'', PBool False),
                  (''error_message'', PStr ''Permission denied'')]]\<rparr>"

subsection \<open>The current-session invariant\<close>

text \<open>
  The number of rows of an external session that are flagged current, and the invariant:
  no external session has more than one such row. The primary key of \<open>internal_sessions\<close>
  is part of the well-formedness of a database.
\<close>

definition current_count :: "database \<Rightarrow> int \<Rightarrow> nat" where
  "current_count db e =
     length (filter (\<lambda>r. ism_external_session_id r = e \<and> ism_is_current r) (internal_sessions db))"

definition current_unique :: "database \<Rightarrow> bool" where
  "current_unique db =
     list_all (\<lambda>e. current_count db e \<le> 1) (map ism_external_session_id (internal_sessions db))"

definition primary_keys_ok :: "database \<Rightarrow> bool" where
  "primary_keys_ok db = distinct (map ism_id (internal_sessions db))"

definition wf_db :: "database \<Rightarrow> bool" where
  "wf_db db = (primary_keys_ok db \<and> current_unique db)"

definition pairwise_current :: "internal_session_row list \<Rightarrow> bool" where
  "pairwise_current rows =
     (\<forall>x\<in>set rows. \<forall>y\<in>set rows.
        ism_external_session_id x = ism_external_session_id y \<and> ism_is_current x \<and> ism_is_current y
        \<longrightarrow> ism_id x = ism_id y)"

text \<open>
  Sequences of the operations \<open>create\<close>, \<open>update\<close> and \<open>set_current_session\<close>.
\<close>

datatype repo_op =
    Create internal_session datetime
  | Update internal_session
  | SetCurrent int

fun apply_op :: "repo_op \<Rightarrow> database \<Rightarrow> database" where
  "apply_op (Create session now) db = snd (create_internal_session session now db)"
| "apply_op (Update session) db = snd (update_internal_session session db)"
| "apply_op (SetCurrent session_id) db = snd (set_current_session session_id db)"

fun run_ops :: "repo_op list \<Rightarrow> database \<Rightarrow> database" where
  "run_ops [] db = db"
| "run_ops (op # ops) db = run_ops ops (apply_op op db)"

text \<open>
  An \<open>update\<close> is safe in a database when the session object does not have \<open>is_current\<close>
  set, or has no id, or when every stored row with its id either carries the
  \<open>external_session_id\<close> of the object or belongs to an external session none of whose
  other rows is current.
\<close>

definition update_is_safe :: "internal_session \<Rightarrow> database \<Rightarrow> bool" where
  "update_is_safe session db =
     (if ins_is_current session \<and> truthy (ins_id session)
      then list_all
             (\<lambda>r. if Some (ism_id r) = ins_id session
                     \<and> ism_external_session_id r \<noteq> ins_external_session_id session
                  then list_all
                         (\<lambda>r'. if ism_external_session_id r' = ism_external_session_id r
                                  \<and> ism_id r' \<noteq> ism_id r
                               then \<not> ism_is_current r' else True)
                         (internal_sessions db)
                  else True)
             (internal_sessions db)
      else True)"

fun updates_are_safe :: "repo_op list \<Rightarrow> database \<Rightarrow> bool" where
  "updates_are_safe [] db = True"
| "updates_are_safe (Update session # ops) db =
     (update_is_safe session db \<and> updates_are_safe ops (apply_op (Update session) db))"
| "updates_are_safe (op # ops) db = updates_are_safe ops (apply_op op db)"

subsection \<open>The frame of an update\<close>

text \<open>
  \<open>frame_kept\<close>: the columns that \<open>update\<close> never writes are the same in both rows.
  \<open>update_frame\<close>: what may happen to a row when \<open>session\<close> is updated; a row other
  than the target is unchanged or has lost its \<open>is_current\<close> flag.
\<close>

definition frame_kept :: "internal_session_row \<Rightarrow> internal_session_row \<Rightarrow> bool" where
  "frame_kept r r' =
     (ism_id r' = ism_id r
      \<and> ism_langgraph_session_id r' = ism_langgraph_session_id r
      \<and> ism_external_session_id r' = ism_external_session_id r
      \<and> ism_parent_session_id r' = ism_parent_session_id r
      \<and> ism_branch_point_checkpoint_id r' = ism_branch_point_checkpoint_id r
      \<and> ism_created_at r' = ism_created_at r)"

definition update_frame ::
  "internal_session \<Rightarrow> internal_session_row \<Rightarrow> internal_session_row \<Rightarrow> bool" where
  "update_frame session r r' =
     (frame_kept r r'
      \<and> (if Some (ism_id r) = ins_id session then True
          else r' = r \<or> r' = r\<lparr>ism_is_current := False\<rparr>))"

subsection \<open>Sample sessions\<close>

definition db_empty :: database where
  "db_empty =
     \<lparr>backend = Sqlite, users = [1], external_sessions = [1, 2], internal_sessions = [],
      checkpoints = []\<rparr>"

definition t0 :: datetime where
  "t0 = \<lparr>instant = 1000, tz_aware = True\<rparr>"

definition s_root :: internal_session where
  "s_root =
     \<lparr>ins_id = None, ins_external_session_id = 1, ins_langgraph_session_id = ''lg-root'',
      ins_session_state = [(''step'', PInt 1)], ins_conversation_history = [],
      ins_created_at = None, ins_is_current = True, ins_checkpoint_count = 0,
      ins_parent_session_id = None, ins_branch_point_checkpoint_id = None,
      ins_tool_invocation_count = 0, ins_metadata = []\<rparr>"

definition s_branch :: internal_session where
  "s_branch =
     s_root\<lparr>ins_langgraph_session_id := ''lg-branch'', ins_is_current := False,
            ins_parent_session_id := Some 1\<rparr>"

definition s_branch_saved :: internal_session where
  "s_branch_saved =
     s_branch\<lparr>ins_id := Some 2, ins_is_current := True,
              ins_session_state := [(''step'', PInt 2)]\<rparr>"

definition s_stale :: internal_session where
  "s_stale = s_branch_saved\<lparr>ins_external_session_id := 2\<rparr>"

definition s_stale_idle :: internal_session where
  "s_stale_idle = s_stale\<lparr>ins_is_current := False\<rparr>"

definition db_two :: database where
  "db_two = run_ops [Create s_root t0, Create s_branch t0] db_empty"

subsection \<open>The state that a committed clearing leaves\<close>

text \<open>
  \<open>siblings_cleared e x db\<close>: the database \<open>db\<close> after \<open>is_current\<close> has been cleared on
  the internal sessions of external session \<open>e\<close>, the one with id \<open>x\<close> excepted.
\<close>

definition siblings_cleared :: "int \<Rightarrow> int option \<Rightarrow> database \<Rightarrow> database" where
  "siblings_cleared e x db =
     db\<lparr>internal_sessions := map (clear_current e x) (internal_sessions db)\<rparr>"

subsection \<open>Checkpoint listings and payloads\<close>


definition payload_coherent :: "(datetime \<Rightarrow> string) \<Rightarrow> checkpoint_row \<Rightarrow> bool" where
  "payload_coherent isoformat r =
     (dict_get (cpm_checkpoint_data r) ''created_at''
        = Some (PStr (isoformat (cpm_created_at r))))"

subsection \<open>Sample checkpoint rows\<close>

text \<open>
  Stand-ins for \<open>Checkpoint.to_dict\<close>, \<open>Checkpoint.from_dict\<close> and
  \<open>datetime.isoformat\<close>, for the samples only; \<open>sample_isoformat\<close> renders the instant
  of the samples.
\<close>

definition sample_to_dict :: "checkpoint \<Rightarrow> pydict" where
  "sample_to_dict c =
     [(''checkpoint_name'', case cp_checkpoint_name c of None \<Rightarrow> PNone | Some n \<Rightarrow> PStr n),
      (''is_auto'', PBool (cp_is_auto c)),
      (''created_at'', PNone),
      (''session_state'', PDict (cp_session_state c))]"

definition sample_from_dict :: "pydict \<Rightarrow> checkpoint" where
  "sample_from_dict d =
     cp_blank\<lparr>cp_checkpoint_name :=
       (case dict_get d ''checkpoint_name'' of Some (PStr n) \<Rightarrow> Some n | _ \<Rightarrow> None)\<rparr>"

definition sample_isoformat :: "datetime \<Rightarrow> string" where
  "sample_isoformat d =
     (if tz_aware d then ''1970-01-01T00:16:40+00:00'' else ''1970-01-01T00:16:40'')"

definition cpr :: "int \<Rightarrow> int \<Rightarrow> bool \<Rightarrow> int \<Rightarrow> checkpoint_row" where
  "cpr i sid auto t =
     \<lparr>cpm_id = i, cpm_internal_session_id = sid, cpm_checkpoint_name = None,
      cpm_checkpoint_data = [], cpm_is_auto = auto,
      cpm_created_at = \<lparr>instant = t, tz_aware = False\<rparr>, cpm_user_id = Some 1\<rparr>"

definition db_cps :: database where
  "db_cps =
     db_two\<lparr>checkpoints :=
       [cpr 1 1 False 1000, cpr 2 1 True 1001, cpr 3 1 True 1002, cpr 4 1 True 1002,
        cpr 5 2 True 1003]\<rparr>"

definition cp_new :: checkpoint where
  "cp_new = cp_blank\<lparr>cp_internal_session_id := 1, cp_checkpoint_name := Some ''Manual''\<rparr>"

definition cp_saved :: checkpoint where
  "cp_saved = cp_new\<lparr>cp_id := Some 1, cp_created_at := Some t0\<rparr>"

definition db_saved :: database where
  "db_saved =
     db_two\<lparr>checkpoints :=
       [\<lparr>cpm_id = 1, cpm_internal_session_id = 1, cpm_checkpoint_name = Some ''Manual'',
         cpm_checkpoint_data =
           [(''checkpoint_name'', PStr ''Manual''), (''is_auto'', PBool False),
            (''created_at'', PStr ''1970-01-01T00:16:40+00:00''),
            (''session_state'', PDict [])],
         cpm_is_auto = False, cpm_created_at = t0\<lparr>tz_aware := False\<rparr>, cpm_user_id = None\<rparr>]\<rparr>"

definition cp_orphan :: checkpoint where
  "cp_orphan = cp_blank\<lparr>cp_internal_session_id := 99\<rparr>"

section \<open>Properties of the diff module\<close>

lemma enumerate_from_eq: "enumerate_from start xs = zip [start ..< start + length xs] xs"
  by (induction xs arbitrary: start) (simp_all add: upt_rec)

lemma compare_tool_invocations_window:
  "compare_tool_invocations old_tools new_tools =
     map (\<lambda>i. tool_change i (new_tools ! i)) [length old_tools ..< length new_tools]"
proof (rule nth_equalityI)
  show "length (compare_tool_invocations old_tools new_tools) =
        length (map (\<lambda>i. tool_change i (new_tools ! i)) [length old_tools ..< length new_tools])"
    by (simp add: compare_tool_invocations_def Let_def enumerate_from_eq)
next
  fix i
  assume "i < length (compare_tool_invocations old_tools new_tools)"
  then have i: "i < length new_tools - length old_tools"
    by (simp add: compare_tool_invocations_def Let_def enumerate_from_eq)
  then show "compare_tool_invocations old_tools new_tools ! i =
        map (\<lambda>i. tool_change i (new_tools ! i)) [length old_tools ..< length new_tools] ! i"
    by (simp add: compare_tool_invocations_def Let_def enumerate_from_eq)
qed

lemma index_tool_change: "index (tool_change i t) = i"
  by (simp add: tool_change_def)

lemma order_checkpoints_by_keys:
  "order_checkpoints a b =
     (if aware_mismatch a b then Inl TypeError
      else Inr (case deciding_keys a b of
                  Some (x, y) \<Rightarrow> if x \<le> y then (a, b) else (b, a)
                | None \<Rightarrow> (a, b)))"
  by (simp add: order_checkpoints_def aware_mismatch_def deciding_keys_def dt_le_def Let_def
      split: option.splits)

lemma deciding_keys_swap:
  "deciding_keys b a = map_option (\<lambda>(x, y). (y, x)) (deciding_keys a b)"
  by (auto simp add: deciding_keys_def split: option.splits)

lemma aware_mismatch_swap: "aware_mismatch b a = aware_mismatch a b"
  by (auto simp add: aware_mismatch_def split: option.splits)

lemma order_checkpoints_strict:
  assumes "strictly_ordered a b"
  shows "order_checkpoints a b =
           (if aware_mismatch a b then Inl TypeError
            else Inr (if key_less a b then (a, b) else (b, a)))"
    and "order_checkpoints b a = order_checkpoints a b"
proof -
  obtain x y where k: "deciding_keys a b = Some (x, y)" and ne: "x \<noteq> y"
    using assms by (auto simp add: strictly_ordered_def split: option.splits)
  have k': "deciding_keys b a = Some (y, x)"
    by (subst deciding_keys_swap) (simp add: k)
  have m: "aware_mismatch b a = aware_mismatch a b"
    by (rule aware_mismatch_swap)
  show "order_checkpoints a b =
           (if aware_mismatch a b then Inl TypeError
            else Inr (if key_less a b then (a, b) else (b, a)))"
    unfolding order_checkpoints_by_keys key_less_def k using ne by auto
  show "order_checkpoints b a = order_checkpoints a b"
    unfolding order_checkpoints_by_keys k k' m using ne by auto
qed

text \<open>
  C3, as the code has it. \<open>_order_checkpoints\<close> raises \<open>TypeError\<close> on an aware and a
  naive timestamp; otherwise it returns the order of the specification's cascade, except
  when the deciding key (\<open>created_at\<close> set on both sides, else \<open>id\<close> set on both sides) is
  tied: then the first argument is the older one at once, and no later key is consulted.
  The cascade moves on past \<open>created_at\<close> or \<open>id\<close> only when the key is missing on one
  side, and past a length when the two lengths are equal.
\<close>

theorem order_checkpoints_cascade:
  "order_checkpoints a b =
     (if aware_mismatch a b then Inl TypeError
      else Inr (if tied_on_deciding_key a b then (a, b) else cascade_order_checkpoints a b))"
  by (auto simp add: order_checkpoints_def aware_mismatch_def deciding_keys_def dt_le_def Let_def
      tied_on_deciding_key_def cascade_order_checkpoints_def
      split: option.splits)

text \<open>
  C3 as stated fails: two checkpoints with the same \<open>created_at\<close> and the ids 2 and 1.
  The cascade of the claim goes on to \<open>id\<close> and finds the second one older; the code
  returns the arguments in the order given.
\<close>

theorem order_checkpoints_tie_counterexample:
  "order_checkpoints cp_tie_a cp_tie_b = Inr (cp_tie_a, cp_tie_b)
   \<and> cascade_order_checkpoints cp_tie_a cp_tie_b = (cp_tie_b, cp_tie_a)
   \<and> cp_tie_a \<noteq> cp_tie_b"
  by (simp add: order_checkpoints_def cascade_order_checkpoints_def dt_le_def
      cp_tie_a_def cp_tie_b_def cp_blank_def)

text \<open>
  C4, as the code has it. When the deciding key of two checkpoints differs,
  \<open>compare_checkpoints\<close> gives the same result for both orders of the arguments; unless
  it raises \<open>TypeError\<close>, \<open>checkpoint_a_id\<close> is the id of the checkpoint with the smaller
  key and \<open>checkpoint_b_id\<close> the id of the other one, and \<open>messages_added\<close> is the length
  of the newer conversation minus the length of the older one.
\<close>

theorem compare_checkpoints_strict_symmetric:
  assumes "strictly_ordered a b"
  shows "compare_checkpoints a b = compare_checkpoints b a
         \<and> (\<forall>r. compare_checkpoints a b = Inr r \<longrightarrow>
               checkpoint_a_id r = cp_id (if key_less a b then a else b)
               \<and> checkpoint_b_id r = cp_id (if key_less a b then b else a)
               \<and> messages_added (conversation_diff r) =
                   int (length (cp_conversation_history (if key_less a b then b else a)))
                   - int (length (cp_conversation_history (if key_less a b then a else b))))"
proof -
  have sym: "compare_checkpoints a b = compare_checkpoints b a"
    unfolding compare_checkpoints_def order_checkpoints_strict(2)[OF assms] ..
  have rep: "\<forall>r. compare_checkpoints a b = Inr r \<longrightarrow>
               checkpoint_a_id r = cp_id (if key_less a b then a else b)
               \<and> checkpoint_b_id r = cp_id (if key_less a b then b else a)
               \<and> messages_added (conversation_diff r) =
                   int (length (cp_conversation_history (if key_less a b then b else a)))
                   - int (length (cp_conversation_history (if key_less a b then a else b)))"
    unfolding compare_checkpoints_def order_checkpoints_strict(1)[OF assms]
    by (auto simp add: build_report_def compare_conversations_def Let_def split: if_splits)
  from sym rep show ?thesis by blast
qed

theorem compare_checkpoints_strict_symmetric_witness:
  "strictly_ordered cp_late_short cp_early_long
   \<and> compare_checkpoints cp_late_short cp_early_long
       = compare_checkpoints cp_early_long cp_late_short
   \<and> compare_checkpoints cp_late_short cp_early_long
       = Inr (build_report cp_early_long cp_late_short)
   \<and> checkpoint_a_id (build_report cp_early_long cp_late_short) = Some 10
   \<and> checkpoint_b_id (build_report cp_early_long cp_late_short) = Some 11"
proof -
  have s: "strictly_ordered cp_late_short cp_early_long"
    by (simp add: strictly_ordered_def deciding_keys_def cp_late_short_def cp_early_long_def
        cp_blank_def)
  have c: "compare_checkpoints cp_late_short cp_early_long
             = Inr (build_report cp_early_long cp_late_short)"
    by (simp add: compare_checkpoints_def order_checkpoints_def dt_le_def
        cp_late_short_def cp_early_long_def cp_blank_def)
  have i: "checkpoint_a_id (build_report cp_early_long cp_late_short) = Some 10
         \<and> checkpoint_b_id (build_report cp_early_long cp_late_short) = Some 11"
    by (simp add: build_report_def cp_late_short_def cp_early_long_def cp_blank_def)
  from s c i compare_checkpoints_strict_symmetric[OF s] show ?thesis by simp
qed

text \<open>
  C4 as stated fails twice. With equal \<open>created_at\<close> and different ids the report depends
  on the order of the arguments; and the checkpoint that is older by \<open>created_at\<close> may
  have the longer conversation, which makes \<open>messages_added\<close> negative.
\<close>

theorem compare_checkpoints_symmetry_counterexample:
  "compare_checkpoints cp_tie_a cp_tie_b \<noteq> compare_checkpoints cp_tie_b cp_tie_a
   \<and> compare_checkpoints cp_late_short cp_early_long
        = Inr (build_report cp_early_long cp_late_short)
   \<and> messages_added (conversation_diff (build_report cp_early_long cp_late_short)) = - 1"
  by (simp add: compare_checkpoints_def order_checkpoints_def dt_le_def build_report_def
      compare_conversations_def cp_tie_a_def cp_tie_b_def cp_late_short_def cp_early_long_def
      cp_blank_def)

text \<open>
  C7. The \<open>tool_invocations\<close> section of a report holds the records of the newer
  checkpoint at the indices from \<open>len(older.tool_invocations)\<close> up to
  \<open>len(newer.tool_invocations)\<close>, in order. The entry at position \<open>k\<close> of the section
  carries the record at position \<open>len(older.tool_invocations) + k\<close> of the newer checkpoint:
  its \<open>index\<close> is that position, its \<open>tool_name\<close> is the record's \<open>tool_name\<close>, else its
  \<open>tool\<close>, else \<open>unknown\<close>, and its \<open>args\<close>, \<open>result\<close>, \<open>success\<close> and \<open>error_message\<close> are
  the record's, with \<open>{}\<close>, \<open>None\<close>, \<open>True\<close> and \<open>None\<close> for a key the record lacks.
\<close>

theorem diff_tool_invocation_window:
  assumes "order_checkpoints a b = Inr (older, newer)"
  shows "\<exists>r. compare_checkpoints a b = Inr r
           \<and> tool_invocations r =
               map (\<lambda>i. tool_change i (cp_tool_invocations newer ! i))
                 [length (cp_tool_invocations older) ..< length (cp_tool_invocations newer)]
           \<and> length (tool_invocations r) =
               length (cp_tool_invocations newer) - length (cp_tool_invocations older)
           \<and> (\<forall>k < length (tool_invocations r).
                 index (tool_invocations r ! k) = length (cp_tool_invocations older) + k
               \<and> tool_name (tool_invocations r ! k) =
                   (case map_of (cp_tool_invocations newer
                                  ! (length (cp_tool_invocations older) + k)) ''tool_name'' of
                      Some v \<Rightarrow> v
                    | None \<Rightarrow>
                        (case map_of (cp_tool_invocations newer
                                       ! (length (cp_tool_invocations older) + k)) ''tool'' of
                           Some v \<Rightarrow> v
                         | None \<Rightarrow> PStr ''unknown''))
               \<and> args (tool_invocations r ! k) =
                   (case map_of (cp_tool_invocations newer
                                  ! (length (cp_tool_invocations older) + k)) ''args'' of
                      Some v \<Rightarrow> v | None \<Rightarrow> PDict [])
               \<and> result (tool_invocations r ! k) =
                   (case map_of (cp_tool_invocations newer
                                  ! (length (cp_tool_invocations older) + k)) ''result'' of
                      Some v \<Rightarrow> v | None \<Rightarrow> PNone)
               \<and> success (tool_invocations r ! k) =
                   (case map_of (cp_tool_invocations newer
                                  ! (length (cp_tool_invocations older) + k)) ''success'' of
                      Some v \<Rightarrow> v | None \<Rightarrow> PBool True)
               \<and> error_message (tool_invocations r ! k) =
                   (case map_of (cp_tool_invocations newer
                                  ! (length (cp_tool_invocations older) + k)) ''error_message'' of
                      Some v \<Rightarrow> v | None \<Rightarrow> PNone))"
proof -
  from assms have c: "compare_checkpoints a b = Inr (build_report older newer)"
    by (simp add: compare_checkpoints_def)
  have t: "tool_invocations (build_report older newer) =
             map (\<lambda>i. tool_change i (cp_tool_invocations newer ! i))
               [length (cp_tool_invocations older) ..< length (cp_tool_invocations newer)]"
    by (simp add: build_report_def compare_tool_invocations_window)
  have f: "\<And>k. k < length (cp_tool_invocations newer) - length (cp_tool_invocations older) \<Longrightarrow>
             tool_invocations (build_report older newer) ! k =
               tool_change (length (cp_tool_invocations older) + k)
                 (cp_tool_invocations newer ! (length (cp_tool_invocations older) + k))"
    unfolding t by simp
  show ?thesis
    using c t f
    by (simp add: tool_change_def dict_get_default_def split: option.splits)
qed

theorem diff_tool_invocation_window_witness:
  "order_checkpoints cp_late_short cp_early_long = Inr (cp_early_long, cp_late_short)
   \<and> (\<exists>r. compare_checkpoints cp_late_short cp_early_long = Inr r
         \<and> length (tool_invocations r) = 2
         \<and> index (tool_invocations r ! 0) = 1
         \<and> tool_name (tool_invocations r ! 0) = PStr ''write_file''
         \<and> success (tool_invocations r ! 0) = PBool True
         \<and> error_message (tool_invocations r ! 0) = PNone
         \<and> index (tool_invocations r ! 1) = 2
         \<and> tool_name (tool_invocations r ! 1) = PStr ''delete_file''
         \<and> args (tool_invocations r ! 1) = PDict []
         \<and> result (tool_invocations r ! 1) = PNone
         \<and> success (tool_invocations r ! 1) = PBool False
         \<and> error_message (tool_invocations r ! 1) = PStr ''Permission denied'')"
proof -
  have o: "order_checkpoints cp_late_short cp_early_long = Inr (cp_early_long, cp_late_short)"
    by (simp add: order_checkpoints_def dt_le_def cp_late_short_def cp_early_long_def
        cp_blank_def)
  have n: "cp_tool_invocations cp_late_short =
             [[(''tool_name'', PStr ''read_file'')],
              [(''tool_name'', PStr ''write_file''), (''success'', PBool True)],
              [(''tool'', PStr ''delete_file''), (''success'', PBool False),
               (''error_message'', PStr ''Permission denied'')]]"
    and m: "length (cp_tool_invocations cp_early_long) = 1"
    by (simp_all add: cp_late_short_def cp_early_long_def cp_blank_def)
  from diff_tool_invocation_window[OF o] obtain r where
    r: "compare_checkpoints cp_late_short cp_early_long = Inr r"
    and l: "length (tool_invocations r) =
              length (cp_tool_invocations cp_late_short)
                - length (cp_tool_invocations cp_early_long)"
    and e: "\<forall>k < length (tool_invocations r).
                 index (tool_invocations r ! k) = length (cp_tool_invocations cp_early_long) + k
               \<and> tool_name (tool_invocations r ! k) =
                   (case map_of (cp_tool_invocations cp_late_short
                                  ! (length (cp_tool_invocations cp_early_long) + k))
                          ''tool_name'' of
                      Some v \<Rightarrow> v
                    | None \<Rightarrow>
                        (case map_of (cp_tool_invocations cp_late_short
                                       ! (length (cp_tool_invocations cp_early_long) + k))
                               ''tool'' of
                           Some v \<Rightarrow> v
                         | None \<Rightarrow> PStr ''unknown''))
               \<and> args (tool_invocations r ! k) =
                   (case map_of (cp_tool_invocations cp_late_short
                                  ! (length (cp_tool_invocations cp_early_long) + k)) ''args'' of
                      Some v \<Rightarrow> v | None \<Rightarrow> PDict [])
               \<and> result (tool_invocations r ! k) =
                   (case map_of (cp_tool_invocations cp_late_short
                                  ! (length (cp_tool_invocations cp_early_long) + k)) ''result'' of
                      Some v \<Rightarrow> v | None \<Rightarrow> PNone)
               \<and> success (tool_invocations r ! k) =
                   (case map_of (cp_tool_invocations cp_late_short
                                  ! (length (cp_tool_invocations cp_early_long) + k)) ''success'' of
                      Some v \<Rightarrow> v | None \<Rightarrow> PBool True)
               \<and> error_message (tool_invocations r ! k) =
                   (case map_of (cp_tool_invocations cp_late_short
                                  ! (length (cp_tool_invocations cp_early_long) + k))
                          ''error_message'' of
                      Some v \<Rightarrow> v | None \<Rightarrow> PNone)"
    by blast
  from l have l2: "length (tool_invocations r) = 2" by (simp add: n m)
  from e l2 have e0: "index (tool_invocations r ! 0) = 1
         \<and> tool_name (tool_invocations r ! 0) = PStr ''write_file''
         \<and> success (tool_invocations r ! 0) = PBool True
         \<and> error_message (tool_invocations r ! 0) = PNone"
    by (simp add: n m)
  from e[rule_format, of 1] l2 have e1: "index (tool_invocations r ! 1) = 2
         \<and> tool_name (tool_invocations r ! 1) = PStr ''delete_file''
         \<and> args (tool_invocations r ! 1) = PDict []
         \<and> result (tool_invocations r ! 1) = PNone
         \<and> success (tool_invocations r ! 1) = PBool False
         \<and> error_message (tool_invocations r ! 1) = PStr ''Permission denied''"
    by (simp add: n m)
  from o r l2 e0 e1 show ?thesis by simp
qed

section \<open>Properties of \<open>InternalSessionRepository\<close>\<close>

lemma get_db_connection_failing_eq:
  "get_db_connection_failing commit_fails body db =
     (case body db of
        (Inl e, view) \<Rightarrow> (Inl e, db)
      | (Inr r, view) \<Rightarrow> if commit_fails then (Inl OperationalError, db) else (Inr r, view))"
  by (simp add: get_db_connection_failing_def run_session_def session_local_def
      session_commit_def session_rollback_def session_close_def Let_def
      split: prod.splits sum.splits)

lemma get_db_connection_eq:
  "get_db_connection body db =
     (case body db of (Inl e, view) \<Rightarrow> (Inl e, db) | (Inr r, view) \<Rightarrow> (Inr r, view))"
  by (simp add: get_db_connection_def get_db_connection_failing_eq split: prod.splits sum.splits)

lemma instant_stored_datetime [simp]: "instant (stored_datetime b t) = instant t"
  by (simp add: stored_datetime_def split: backend.splits)

lemma count_le_one_iff:
  assumes d: "distinct (map k xs)"
  shows "(length (filter P xs) \<le> 1) = (\<forall>x\<in>set xs. \<forall>y\<in>set xs. P x \<and> P y \<longrightarrow> k x = k y)"
proof
  assume l: "length (filter P xs) \<le> 1"
  show "\<forall>x\<in>set xs. \<forall>y\<in>set xs. P x \<and> P y \<longrightarrow> k x = k y"
  proof (intro ballI impI)
    fix x y
    assume "x \<in> set xs" "y \<in> set xs" "P x \<and> P y"
    then have x: "x \<in> set (filter P xs)" and y: "y \<in> set (filter P xs)" by simp_all
    show "k x = k y"
    proof (cases "filter P xs")
      case Nil
      with x show ?thesis by simp
    next
      case (Cons z zs)
      with l have "zs = []" by simp
      with Cons x y show ?thesis by simp
    qed
  qed
next
  assume h: "\<forall>x\<in>set xs. \<forall>y\<in>set xs. P x \<and> P y \<longrightarrow> k x = k y"
  have df: "distinct (map k (filter P xs))" using d by (rule distinct_map_filter)
  show "length (filter P xs) \<le> 1"
  proof (cases "filter P xs")
    case Nil
    then show ?thesis by simp
  next
    case (Cons u us)
    show ?thesis
    proof (cases us)
      case Nil
      with Cons show ?thesis by simp
    next
      case (Cons v vs)
      have "u \<in> set (filter P xs)" "v \<in> set (filter P xs)"
        using \<open>filter P xs = u # us\<close> Cons by simp_all
      then have "u \<in> set xs" "v \<in> set xs" "P u" "P v" by simp_all
      with h have "k u = k v" by blast
      moreover have "k u \<noteq> k v" using df \<open>filter P xs = u # us\<close> Cons by simp
      ultimately show ?thesis by simp
    qed
  qed
qed

lemma current_unique_forall:
  "current_unique db = (\<forall>e. current_count db e \<le> 1)"
proof
  assume "\<forall>e. current_count db e \<le> 1"
  then show "current_unique db" by (simp add: current_unique_def list_all_iff)
next
  assume u: "current_unique db"
  show "\<forall>e. current_count db e \<le> 1"
  proof
    fix e
    show "current_count db e \<le> 1"
    proof (cases "e \<in> ism_external_session_id ` set (internal_sessions db)")
      case True
      then show ?thesis using u by (auto simp add: current_unique_def list_all_iff)
    next
      case False
      then have "filter (\<lambda>r. ism_external_session_id r = e \<and> ism_is_current r) (internal_sessions db) = []"
        by (auto simp add: filter_empty_conv)
      then show ?thesis by (simp add: current_count_def)
    qed
  qed
qed

lemma current_unique_pairwise:
  assumes "primary_keys_ok db"
  shows "current_unique db = pairwise_current (internal_sessions db)"
proof -
  have d: "distinct (map ism_id (internal_sessions db))"
    using assms by (simp add: primary_keys_ok_def)
  have c: "\<And>e. (current_count db e \<le> 1) =
      (\<forall>x\<in>set (internal_sessions db). \<forall>y\<in>set (internal_sessions db).
         (ism_external_session_id x = e \<and> ism_is_current x)
         \<and> (ism_external_session_id y = e \<and> ism_is_current y) \<longrightarrow> ism_id x = ism_id y)"
    unfolding current_count_def by (rule count_le_one_iff[OF d])
  show ?thesis
  proof
    assume "current_unique db"
    then have u: "\<And>e. current_count db e \<le> 1" by (simp add: current_unique_forall)
    show "pairwise_current (internal_sessions db)"
      unfolding pairwise_current_def
    proof (intro ballI impI)
      fix x y
      assume x: "x \<in> set (internal_sessions db)" and y: "y \<in> set (internal_sessions db)"
        and h: "ism_external_session_id x = ism_external_session_id y
                \<and> ism_is_current x \<and> ism_is_current y"
      from u[of "ism_external_session_id y"] c[of "ism_external_session_id y"] x y h
      show "ism_id x = ism_id y" by blast
    qed
  next
    assume p: "pairwise_current (internal_sessions db)"
    have "\<And>e. current_count db e \<le> 1"
    proof -
      fix e
      show "current_count db e \<le> 1"
        unfolding c
      proof (intro ballI impI)
        fix x y
        assume x: "x \<in> set (internal_sessions db)" and y: "y \<in> set (internal_sessions db)"
          and h: "(ism_external_session_id x = e \<and> ism_is_current x)
                  \<and> (ism_external_session_id y = e \<and> ism_is_current y)"
        from h have "ism_external_session_id x = ism_external_session_id y
                \<and> ism_is_current x \<and> ism_is_current y" by simp
        with p x y show "ism_id x = ism_id y" unfolding pairwise_current_def by blast
      qed
    qed
    then show "current_unique db" by (simp add: current_unique_forall)
  qed
qed

lemma update_first_distinct:
  "distinct (map k xs) \<Longrightarrow>
     update_first (\<lambda>r. k r = i) f xs = map (\<lambda>r. if k r = i then f r else r) xs"
proof (induction xs)
  case Nil
  then show ?case by simp
next
  case (Cons a xs)
  show ?case
  proof (cases "k a = i")
    case True
    have "\<forall>r\<in>set xs. k r \<noteq> i"
    proof
      fix r assume "r \<in> set xs"
      then have "k r \<in> set (map k xs)" by simp
      moreover have "k a \<notin> set (map k xs)" using Cons.prems by simp
      ultimately show "k r \<noteq> i" using True by metis
    qed
    then have "map (\<lambda>r. if k r = i then f r else r) xs = xs"
      by (induction xs) auto
    then show ?thesis using True by simp
  next
    case False
    then show ?thesis using Cons by simp
  qed
qed

lemma next_id_fresh: "next_id ids \<notin> set ids"
proof
  assume "next_id ids \<in> set ids"
  then have "next_id ids \<le> Max (set (0 # ids))" by (intro Max_ge) auto
  also have "\<dots> = fold max ids 0" by (rule Max.set_eq_fold)
  finally show False by (simp add: next_id_def)
qed

lemma mark_all_not_current_eq:
  "mark_all_not_current e x db =
     (Inr (), db\<lparr>internal_sessions := map (clear_current e x) (internal_sessions db)\<rparr>)"
  by (simp add: mark_all_not_current_def mark_all_not_current_body_def get_db_connection_eq)

lemma clear_current_id [simp]: "ism_id (clear_current e x r) = ism_id r"
  and clear_current_ext [simp]: "ism_external_session_id (clear_current e x r) = ism_external_session_id r"
  and clear_current_cur: "ism_is_current (clear_current e x r) \<Longrightarrow> ism_is_current r"
  by (auto simp add: clear_current_def split: if_splits)

lemma pairwise_current_clear:
  "pairwise_current rows \<Longrightarrow> pairwise_current (map (clear_current e x0) rows)"
proof -
  assume p: "pairwise_current rows"
  show ?thesis
    unfolding pairwise_current_def
  proof (intro ballI impI)
    fix x y
    assume x: "x \<in> set (map (clear_current e x0) rows)"
      and y: "y \<in> set (map (clear_current e x0) rows)"
      and h: "ism_external_session_id x = ism_external_session_id y \<and> ism_is_current x \<and> ism_is_current y"
    from x obtain x' where x': "x' \<in> set rows" "x = clear_current e x0 x'" by auto
    from y obtain y' where y': "y' \<in> set rows" "y = clear_current e x0 y'" by auto
    from h x' y' have "ism_external_session_id x' = ism_external_session_id y'"
      "ism_is_current x'" "ism_is_current y'"
      by (auto dest: clear_current_cur)
    with p x' y' have "ism_id x' = ism_id y'" unfolding pairwise_current_def by blast
    then show "ism_id x = ism_id y" using x' y' by simp
  qed
qed

lemma distinct_clear_current:
  "distinct (map ism_id (map (clear_current e x0) rows)) = distinct (map ism_id rows)"
  by (simp add: comp_def)

lemma clear_current_none_not_current:
  "ism_external_session_id r = e \<Longrightarrow> \<not> ism_is_current (clear_current e None r)"
  by (simp add: clear_current_def truthy_def)

lemma clear_current_other_not_current:
  "truthy (Some i) \<Longrightarrow> ism_external_session_id r = e \<Longrightarrow> ism_id r \<noteq> i
     \<Longrightarrow> \<not> ism_is_current (clear_current e (Some i) r)"
  by (simp add: clear_current_def)

lemma pairwise_current_snoc:
  assumes p: "pairwise_current rows"
    and n: "ism_is_current n \<Longrightarrow>
              \<forall>x\<in>set rows. ism_external_session_id x = ism_external_session_id n
                 \<longrightarrow> \<not> ism_is_current x"
  shows "pairwise_current (rows @ [n])"
  unfolding pairwise_current_def
proof (intro ballI impI)
  fix x y
  assume x: "x \<in> set (rows @ [n])" and y: "y \<in> set (rows @ [n])"
    and h: "ism_external_session_id x = ism_external_session_id y
            \<and> ism_is_current x \<and> ism_is_current y"
  show "ism_id x = ism_id y"
  proof (cases "x = n")
    case True
    show ?thesis
    proof (cases "y = n")
      case True
      with \<open>x = n\<close> show ?thesis by simp
    next
      case False
      with y have "y \<in> set rows" by simp
      with n h \<open>x = n\<close> show ?thesis by metis
    qed
  next
    case False
    with x have xr: "x \<in> set rows" by simp
    show ?thesis
    proof (cases "y = n")
      case True
      with n h xr show ?thesis by metis
    next
      case False
      with y have "y \<in> set rows" by simp
      with p xr h show ?thesis unfolding pairwise_current_def by metis
    qed
  qed
qed

lemma wf_db_pairwise:
  "wf_db db = (distinct (map ism_id (internal_sessions db)) \<and> pairwise_current (internal_sessions db))"
  using current_unique_pairwise[of db] by (auto simp add: wf_db_def primary_keys_ok_def)

lemma create_internal_session_rows:
  "internal_sessions (snd (create_internal_session session now db)) =
     (let rows1 = (if ins_is_current session
                   then map (clear_current (ins_external_session_id session) None)
                          (internal_sessions db)
                   else internal_sessions db)
      in if internal_session_insertable
              (db\<lparr>internal_sessions := rows1\<rparr>) session
         then rows1 @
              [\<lparr>ism_id = next_id (map ism_id rows1),
                ism_external_session_id = ins_external_session_id session,
                ism_langgraph_session_id = ins_langgraph_session_id session,
                ism_state_data = ins_session_state session,
                ism_conversation_history = ins_conversation_history session,
                ism_created_at = stored_datetime (backend db) now,
                ism_is_current = ins_is_current session,
                ism_checkpoint_count = ins_checkpoint_count session,
                ism_parent_session_id = ins_parent_session_id session,
                ism_branch_point_checkpoint_id = ins_branch_point_checkpoint_id session,
                ism_tool_invocation_count = ins_tool_invocation_count session,
                ism_session_metadata = ins_metadata session\<rparr>]
         else rows1)"
  by (simp add: create_internal_session_def mark_all_not_current_eq get_db_connection_eq
      create_internal_session_body_def Let_def)

lemma create_preserves_wf:
  assumes "wf_db db"
  shows "wf_db (snd (create_internal_session session now db))"
proof -
  let ?e = "ins_external_session_id session"
  let ?rows1 = "if ins_is_current session
                then map (clear_current ?e None) (internal_sessions db)
                else internal_sessions db"
  from assms have d: "distinct (map ism_id (internal_sessions db))"
    and p: "pairwise_current (internal_sessions db)"
    by (simp_all add: wf_db_pairwise)
  have d1: "distinct (map ism_id ?rows1)"
    using d by (simp add: comp_def)
  have p1: "pairwise_current ?rows1"
    using p by (simp add: pairwise_current_clear)
  have c1: "ins_is_current session \<Longrightarrow>
              \<forall>x\<in>set ?rows1. ism_external_session_id x = ?e \<longrightarrow> \<not> ism_is_current x"
    by (auto simp add: clear_current_def truthy_def)
  show ?thesis
  proof (cases "internal_session_insertable (db\<lparr>internal_sessions := ?rows1\<rparr>) session")
    case False
    then have "internal_sessions (snd (create_internal_session session now db)) = ?rows1"
      by (simp add: create_internal_session_rows Let_def)
    with d1 p1 show ?thesis by (simp add: wf_db_pairwise)
  next
    case True
    obtain n where n: "internal_sessions (snd (create_internal_session session now db)) = ?rows1 @ [n]"
      and nid: "ism_id n = next_id (map ism_id ?rows1)"
      and nex: "ism_external_session_id n = ?e"
      and ncur: "ism_is_current n = ins_is_current session"
      using True by (simp add: create_internal_session_rows Let_def)
    have "ism_id n \<notin> set (map ism_id ?rows1)"
      unfolding nid by (rule next_id_fresh)
    with d1 have d': "distinct (map ism_id (?rows1 @ [n]))" by simp
    have p': "pairwise_current (?rows1 @ [n])"
    proof (rule pairwise_current_snoc[OF p1])
      assume "ism_is_current n"
      then have "ins_is_current session" by (simp add: ncur)
      from c1[OF this] show "\<forall>x\<in>set ?rows1.
           ism_external_session_id x = ism_external_session_id n \<longrightarrow> \<not> ism_is_current x"
        by (simp add: nex)
    qed
    from d' p' n show ?thesis by (simp add: wf_db_pairwise)
  qed
qed

lemma first_filter_Some:
  "first (filter P xs) = Some r \<Longrightarrow> r \<in> set xs \<and> P r"
proof -
  assume a: "first (filter P xs) = Some r"
  then obtain ys where "filter P xs = r # ys"
    by (cases "filter P xs") (simp_all add: first_def)
  then have "r \<in> set (filter P xs)" by simp
  then show ?thesis by simp
qed

lemma first_filter_None:
  "first (filter P xs) = None \<Longrightarrow> \<forall>x\<in>set xs. \<not> P x"
proof -
  assume "first (filter P xs) = None"
  then have "filter P xs = []" by (cases "filter P xs") (simp_all add: first_def)
  then show ?thesis by (simp add: filter_empty_conv)
qed

lemma update_first_none:
  "\<forall>x\<in>set xs. \<not> P x \<Longrightarrow> update_first P f xs = xs"
  by (induction xs) simp_all

lemma distinct_same_key:
  "distinct (map k xs) \<Longrightarrow> x \<in> set xs \<Longrightarrow> y \<in> set xs \<Longrightarrow> k x = k y \<Longrightarrow> x = y"
  by (meson distinct_map inj_onD)

lemma pairwise_current_map_target:
  assumes p: "pairwise_current rows"
    and g_id: "\<And>r. ism_id (g r) = ism_id r"
    and g_ext: "\<And>r. ism_external_session_id (g r) = ism_external_session_id r"
    and others: "\<And>r. ism_id r \<noteq> i \<Longrightarrow> g r = r"
    and excl: "\<And>x y. x \<in> set rows \<Longrightarrow> y \<in> set rows \<Longrightarrow> ism_id x = i \<Longrightarrow> ism_id y \<noteq> i
                 \<Longrightarrow> ism_external_session_id x = ism_external_session_id y
                 \<Longrightarrow> ism_is_current (g x) \<Longrightarrow> \<not> ism_is_current y"
  shows "pairwise_current (map g rows)"
  unfolding pairwise_current_def
proof (intro ballI impI)
  fix x' y'
  assume x': "x' \<in> set (map g rows)" and y': "y' \<in> set (map g rows)"
    and h: "ism_external_session_id x' = ism_external_session_id y'
            \<and> ism_is_current x' \<and> ism_is_current y'"
  from x' obtain x where x: "x \<in> set rows" "x' = g x" by auto
  from y' obtain y where y: "y \<in> set rows" "y' = g y" by auto
  have e: "ism_external_session_id x = ism_external_session_id y"
    using h x y by (simp add: g_ext)
  have cx: "ism_is_current (g x)" and cy: "ism_is_current (g y)" using h x y by simp_all
  show "ism_id x' = ism_id y'"
  proof (cases "ism_id x = i")
    case xi: True
    show ?thesis
    proof (cases "ism_id y = i")
      case True
      with xi x y show ?thesis by (simp add: g_id)
    next
      case False
      then have "g y = y" by (rule others)
      with cy have "ism_is_current y" by simp
      moreover have "\<not> ism_is_current y"
        using excl[OF x(1) y(1) xi False e cx] .
      ultimately show ?thesis by simp
    qed
  next
    case xi: False
    then have gx: "g x = x" by (rule others)
    show ?thesis
    proof (cases "ism_id y = i")
      case True
      from gx cx have "ism_is_current x" by simp
      moreover have "\<not> ism_is_current x"
        using excl[OF y(1) x(1) True xi e[symmetric] cy] .
      ultimately show ?thesis by simp
    next
      case False
      then have gy: "g y = y" by (rule others)
      from p x y e cx cy gx gy have "ism_id x = ism_id y"
        unfolding pairwise_current_def by metis
      with x y show ?thesis by (simp add: g_id)
    qed
  qed
qed

lemma update_internal_session_rows:
  "internal_sessions (snd (update_internal_session session db)) =
     (if \<not> truthy (ins_id session) then internal_sessions db
      else update_first (\<lambda>r. Some (ism_id r) = ins_id session) (write_session session)
             (if ins_is_current session
              then map (clear_current (ins_external_session_id session) (ins_id session))
                     (internal_sessions db)
              else internal_sessions db))"
proof (cases "truthy (ins_id session)")
  case False
  then show ?thesis by (simp add: update_internal_session_def)
next
  case True
  let ?rows1 = "if ins_is_current session
                then map (clear_current (ins_external_session_id session) (ins_id session))
                       (internal_sessions db)
                else internal_sessions db"
  let ?P = "\<lambda>r. Some (ism_id r) = ins_id session"
  have "internal_sessions (snd (update_internal_session session db)) =
          (case first (filter ?P ?rows1) of
             Some r \<Rightarrow> update_first ?P (write_session session) ?rows1
           | None \<Rightarrow> ?rows1)"
    using True
    by (simp add: update_internal_session_def update_internal_session_body_def
        mark_all_not_current_eq get_db_connection_eq split: option.splits)
  also have "\<dots> = update_first ?P (write_session session) ?rows1"
  proof (cases "first (filter ?P ?rows1)")
    case None
    from first_filter_None[OF this] have "update_first ?P (write_session session) ?rows1 = ?rows1"
      by (rule update_first_none)
    with None show ?thesis by simp
  next
    case (Some r)
    then show ?thesis by simp
  qed
  finally show ?thesis using True by simp
qed

lemma write_session_frame [simp]:
  "ism_id (write_session s r) = ism_id r"
  "ism_external_session_id (write_session s r) = ism_external_session_id r"
  "ism_langgraph_session_id (write_session s r) = ism_langgraph_session_id r"
  "ism_parent_session_id (write_session s r) = ism_parent_session_id r"
  "ism_branch_point_checkpoint_id (write_session s r) = ism_branch_point_checkpoint_id r"
  "ism_created_at (write_session s r) = ism_created_at r"
  "ism_is_current (write_session s r) = ins_is_current s"
  by (simp_all add: write_session_def)

lemma update_is_safe_iff:
  "update_is_safe session db =
     (ins_is_current session \<and> truthy (ins_id session) \<longrightarrow>
        (\<forall>r\<in>set (internal_sessions db).
           Some (ism_id r) = ins_id session
           \<and> ism_external_session_id r \<noteq> ins_external_session_id session \<longrightarrow>
             (\<forall>r'\<in>set (internal_sessions db).
                ism_external_session_id r' = ism_external_session_id r \<and> ism_id r' \<noteq> ism_id r
                  \<longrightarrow> \<not> ism_is_current r')))"
  unfolding update_is_safe_def list_all_iff
  by (cases "ins_is_current session"; cases "truthy (ins_id session)"; simp)

lemma update_preserves_wf:
  assumes w: "wf_db db" and m: "update_is_safe session db"
  shows "wf_db (snd (update_internal_session session db))"
proof (cases "truthy (ins_id session)")
  case False
  then have "snd (update_internal_session session db) = db"
    by (simp add: update_internal_session_def)
  with w show ?thesis by simp
next
  case True
  then obtain i where i: "ins_id session = Some i" and i0: "i \<noteq> 0"
    by (cases "ins_id session") (simp_all add: truthy_def)
  let ?e = "ins_external_session_id session"
  define rows1 where "rows1 = (if ins_is_current session
                then map (clear_current ?e (Some i)) (internal_sessions db)
                else internal_sessions db)"
  let ?g = "\<lambda>r. if ism_id r = i then write_session session r else r"
  from w have d: "distinct (map ism_id (internal_sessions db))"
    and p: "pairwise_current (internal_sessions db)"
    by (simp_all add: wf_db_pairwise)
  have d1: "distinct (map ism_id rows1)" using d by (simp add: rows1_def comp_def)
  have p1: "pairwise_current rows1" using p by (simp add: rows1_def pairwise_current_clear)
  have "internal_sessions (snd (update_internal_session session db)) =
          update_first (\<lambda>r. ism_id r = i) (write_session session) rows1"
    using True by (simp add: update_internal_session_rows i rows1_def)
  also have "\<dots> = map ?g rows1"
    by (rule update_first_distinct[OF d1])
  finally have rows: "internal_sessions (snd (update_internal_session session db)) = map ?g rows1" .
  have gid: "map ism_id (map ?g rows1) = map ism_id rows1"
    by (simp add: comp_def)
  have d': "distinct (map ism_id (map ?g rows1))" unfolding gid by (rule d1)
  have p': "pairwise_current (map ?g rows1)"
  proof (rule pairwise_current_map_target[OF p1, of ?g i])
    fix r :: internal_session_row show "ism_id (?g r) = ism_id r" by simp
  next
    fix r :: internal_session_row show "ism_external_session_id (?g r) = ism_external_session_id r" by simp
  next
    fix r :: internal_session_row assume "ism_id r \<noteq> i" then show "?g r = r" by simp
  next
    fix x y
    assume x: "x \<in> set rows1" and y: "y \<in> set rows1"
      and xi: "ism_id x = i" and yi: "ism_id y \<noteq> i"
      and e: "ism_external_session_id x = ism_external_session_id y"
      and c: "ism_is_current (?g x)"
    from c xi have cur: "ins_is_current session" by simp
    from x cur obtain x0 where x0: "x0 \<in> set (internal_sessions db)"
      "x = clear_current ?e (Some i) x0" by (auto simp add: rows1_def)
    from y cur obtain y0 where y0: "y0 \<in> set (internal_sessions db)"
      "y = clear_current ?e (Some i) y0" by (auto simp add: rows1_def)
    from x0 xi have xi0: "ism_id x0 = i" by simp
    from y0 yi have yi0: "ism_id y0 \<noteq> i" by simp
    from x0 y0 e have e0: "ism_external_session_id y0 = ism_external_session_id x0" by simp
    show "\<not> ism_is_current y"
    proof (cases "ism_external_session_id x0 = ?e")
      case True
      with e0 have "ism_external_session_id y0 = ?e" by simp
      moreover have "truthy (Some i)" using i0 by (simp add: truthy_def)
      ultimately have "\<not> ism_is_current (clear_current ?e (Some i) y0)"
        using yi0 by (simp add: clear_current_other_not_current)
      with y0 show ?thesis by simp
    next
      case False
      from m cur True i have
        "\<forall>r\<in>set (internal_sessions db).
           ism_id r = i \<and> ism_external_session_id r \<noteq> ?e \<longrightarrow>
             (\<forall>r'\<in>set (internal_sessions db).
                ism_external_session_id r' = ism_external_session_id r \<and> ism_id r' \<noteq> ism_id r
                  \<longrightarrow> \<not> ism_is_current r')"
        by (simp add: update_is_safe_iff)
      with x0(1) xi0 False have
        "\<forall>r'\<in>set (internal_sessions db).
            ism_external_session_id r' = ism_external_session_id x0 \<and> ism_id r' \<noteq> ism_id x0
              \<longrightarrow> \<not> ism_is_current r'" by simp
      with y0(1) e0 yi0 xi0 have "\<not> ism_is_current y0" by simp
      then have "\<not> ism_is_current (clear_current ?e (Some i) y0)"
        using clear_current_cur by metis
      with y0 show ?thesis by simp
    qed
  qed
  from d' p' rows show ?thesis by (simp add: wf_db_pairwise)
qed

lemma update_internal_session_rows_map:
  assumes d: "distinct (map ism_id (internal_sessions db))"
    and i: "ins_id session = Some i" and i0: "i \<noteq> 0"
  shows "internal_sessions (snd (update_internal_session session db)) =
           map (\<lambda>r. if ism_id r = i then write_session session r else r)
             (if ins_is_current session
              then map (clear_current (ins_external_session_id session) (Some i))
                     (internal_sessions db)
              else internal_sessions db)"
proof -
  define rows1 where "rows1 = (if ins_is_current session
                then map (clear_current (ins_external_session_id session) (Some i))
                       (internal_sessions db)
                else internal_sessions db)"
  have t: "truthy (ins_id session)" using i i0 by (simp add: truthy_def)
  have d1: "distinct (map ism_id rows1)" using d by (simp add: rows1_def comp_def)
  have "internal_sessions (snd (update_internal_session session db)) =
          update_first (\<lambda>r. ism_id r = i) (write_session session) rows1"
    using t by (simp add: update_internal_session_rows i rows1_def)
  also have "\<dots> = map (\<lambda>r. if ism_id r = i then write_session session r else r) rows1"
    by (rule update_first_distinct[OF d1])
  finally show ?thesis by (simp add: rows1_def)
qed

lemma unsafe_update_breaks:
  assumes w: "wf_db db" and n: "\<not> update_is_safe session db"
  shows "\<not> current_unique (snd (update_internal_session session db))"
proof -
  let ?e = "ins_external_session_id session"
  let ?db' = "snd (update_internal_session session db)"
  from n have cur: "ins_is_current session" and t: "truthy (ins_id session)"
    by (simp_all add: update_is_safe_def split: if_splits)
  from t obtain i where i: "ins_id session = Some i" and i0: "i \<noteq> 0"
    by (cases "ins_id session") (simp_all add: truthy_def)
  from w have d: "distinct (map ism_id (internal_sessions db))"
    by (simp add: wf_db_pairwise)
  from n cur t i have
    "\<exists>r\<in>set (internal_sessions db).
       (ism_id r = i \<and> ism_external_session_id r \<noteq> ?e) \<and>
         (\<exists>r'\<in>set (internal_sessions db).
            (ism_external_session_id r' = ism_external_session_id r \<and> ism_id r' \<noteq> i)
              \<and> ism_is_current r')"
    by (simp add: update_is_safe_iff)
  then obtain r r' where r: "r \<in> set (internal_sessions db)" and ri: "ism_id r = i"
    and re: "ism_external_session_id r \<noteq> ?e"
    and r': "r' \<in> set (internal_sessions db)"
    and r'e: "ism_external_session_id r' = ism_external_session_id r"
    and r'i: "ism_id r' \<noteq> i" and r'c: "ism_is_current r'"
    by (elim bexE conjE) blast
  define c where "c = clear_current ?e (Some i)"
  define g where "g = (\<lambda>r. if ism_id r = i then write_session session r else r)"
  have rows: "internal_sessions ?db' = map g (map c (internal_sessions db))"
    using update_internal_session_rows_map[OF d i i0] cur by (simp add: c_def g_def)
  have gid: "\<And>z. ism_id (g z) = ism_id z" by (simp add: g_def)
  have cid: "\<And>z. ism_id (c z) = ism_id z" by (simp add: c_def)
  have ids: "map ism_id (internal_sessions ?db') = map ism_id (internal_sessions db)"
    unfolding rows by (simp add: comp_def gid cid)
  have k: "primary_keys_ok ?db'"
    unfolding primary_keys_ok_def ids by (rule d)
  define a where "a = g (c r)"
  define b where "b = g (c r')"
  have x: "a \<in> set (internal_sessions ?db')"
    unfolding rows a_def using r by simp
  have y: "b \<in> set (internal_sessions ?db')"
    unfolding rows b_def using r' by simp
  have xc: "ism_is_current a" using ri cur by (simp add: a_def g_def c_def)
  have xe: "ism_external_session_id a = ism_external_session_id r"
    by (simp add: a_def g_def c_def)
  have xid: "ism_id a = i" using ri by (simp add: a_def gid cid)
  have cr': "c r' = r'" using r'e re by (simp add: c_def clear_current_def)
  have gr': "b = r'" unfolding b_def cr' using r'i by (simp add: g_def)
  show ?thesis
  proof
    assume "current_unique ?db'"
    with current_unique_pairwise[OF k] have p: "pairwise_current (internal_sessions ?db')"
      by simp
    have "ism_external_session_id a = ism_external_session_id b \<and> ism_is_current a
            \<and> ism_is_current b"
      using xe gr' r'e xc r'c by simp
    then have h: "ism_external_session_id a = ism_external_session_id b \<and> ism_is_current a
            \<and> ism_is_current b" .
    from p[unfolded pairwise_current_def] x have
      "\<forall>y\<in>set (internal_sessions ?db').
         ism_external_session_id a = ism_external_session_id y \<and> ism_is_current a
           \<and> ism_is_current y \<longrightarrow> ism_id a = ism_id y"
      by (rule bspec)
    from this y have
      "ism_external_session_id a = ism_external_session_id b \<and> ism_is_current a
           \<and> ism_is_current b \<longrightarrow> ism_id a = ism_id b"
      by (rule bspec)
    with h have "ism_id a = ism_id b" by simp
    with xid gr' r'i show False by simp
  qed
qed

lemma update_safe_iff:
  assumes "wf_db db"
  shows "current_unique (snd (update_internal_session session db)) = update_is_safe session db"
proof
  assume "current_unique (snd (update_internal_session session db))"
  with unsafe_update_breaks[OF assms, of session] show "update_is_safe session db" by auto
next
  assume "update_is_safe session db"
  from update_preserves_wf[OF assms this]
  show "current_unique (snd (update_internal_session session db))" by (simp add: wf_db_def)
qed

lemma first_filter_map_clear:
  "first (filter (\<lambda>r. ism_id r = sid) (map (clear_current e x0) rows)) =
     map_option (clear_current e x0) (first (filter (\<lambda>r. ism_id r = sid) rows))"
  by (induction rows) (simp_all add: first_def)

lemma set_current_session_eq:
  "set_current_session sid db =
     (case first (filter (\<lambda>r. ism_id r = sid) (internal_sessions db)) of
        None \<Rightarrow> (Inr False, db)
      | Some r0 \<Rightarrow>
          (Inr True,
           db\<lparr>internal_sessions :=
                update_first (\<lambda>r. ism_id r = sid) (\<lambda>r. r\<lparr>ism_is_current := True\<rparr>)
                  (map (clear_current (ism_external_session_id r0) None)
                     (internal_sessions db))\<rparr>))"
proof (cases "first (filter (\<lambda>r. ism_id r = sid) (internal_sessions db))")
  case None
  then show ?thesis
    by (simp add: set_current_session_def get_internal_session_by_id_def
        get_internal_session_by_id_body_def set_current_session_body_def get_db_connection_eq)
next
  case (Some r0)
  then show ?thesis
    by (simp add: set_current_session_def get_internal_session_by_id_def
        get_internal_session_by_id_body_def set_current_session_body_def get_db_connection_eq
        mark_all_not_current_eq row_to_session_def first_filter_map_clear)
qed

lemma set_current_session_rows:
  assumes d: "distinct (map ism_id (internal_sessions db))"
    and r0: "r0 \<in> set (internal_sessions db)" "ism_id r0 = sid"
  shows "set_current_session sid db =
     (Inr True,
      db\<lparr>internal_sessions :=
           map (\<lambda>r. if ism_id r = sid then r\<lparr>ism_is_current := True\<rparr> else r)
             (map (clear_current (ism_external_session_id r0) None) (internal_sessions db))\<rparr>)"
proof -
  obtain r1 where f: "first (filter (\<lambda>r. ism_id r = sid) (internal_sessions db)) = Some r1"
  proof (cases "first (filter (\<lambda>r. ism_id r = sid) (internal_sessions db))")
    case None
    from first_filter_None[OF this] r0 show ?thesis by simp
  next
    case (Some r1)
    then show ?thesis by (rule that)
  qed
  from first_filter_Some[OF f] have "r1 \<in> set (internal_sessions db)" "ism_id r1 = sid"
    by simp_all
  with d r0 have r1: "r1 = r0" by (simp add: distinct_same_key)
  have d1: "distinct (map ism_id (map (clear_current (ism_external_session_id r0) None)
              (internal_sessions db)))"
    using d by (simp add: comp_def)
  show ?thesis
    unfolding set_current_session_eq f r1
    by (simp add: update_first_distinct[OF d1])
qed

lemma set_current_preserves_wf:
  assumes w: "wf_db db"
  shows "wf_db (snd (set_current_session sid db))"
proof (cases "first (filter (\<lambda>r. ism_id r = sid) (internal_sessions db))")
  case None
  then have "snd (set_current_session sid db) = db"
    by (simp add: set_current_session_eq)
  with w show ?thesis by simp
next
  case (Some r0)
  from first_filter_Some[OF Some] have r0: "r0 \<in> set (internal_sessions db)" "ism_id r0 = sid"
    by simp_all
  let ?e = "ism_external_session_id r0"
  define rows1 where "rows1 = map (clear_current ?e None) (internal_sessions db)"
  let ?g = "\<lambda>r. if ism_id r = sid then r\<lparr>ism_is_current := True\<rparr> else r"
  from w have d: "distinct (map ism_id (internal_sessions db))"
    and p: "pairwise_current (internal_sessions db)"
    by (simp_all add: wf_db_pairwise)
  have d1: "distinct (map ism_id rows1)" using d by (simp add: rows1_def comp_def)
  have p1: "pairwise_current rows1" using p by (simp add: rows1_def pairwise_current_clear)
  have rows: "internal_sessions (snd (set_current_session sid db)) = map ?g rows1"
    by (simp add: set_current_session_rows[OF d r0] rows1_def)
  have gid: "map ism_id (map ?g rows1) = map ism_id rows1"
    by (simp add: comp_def)
  have d': "distinct (map ism_id (map ?g rows1))" unfolding gid by (rule d1)
  have p': "pairwise_current (map ?g rows1)"
  proof (rule pairwise_current_map_target[OF p1, of ?g sid])
    fix r :: internal_session_row show "ism_id (?g r) = ism_id r" by simp
  next
    fix r :: internal_session_row
    show "ism_external_session_id (?g r) = ism_external_session_id r" by simp
  next
    fix r :: internal_session_row assume "ism_id r \<noteq> sid" then show "?g r = r" by simp
  next
    fix x y
    assume x: "x \<in> set rows1" and y: "y \<in> set rows1"
      and xi: "ism_id x = sid" and yi: "ism_id y \<noteq> sid"
      and e: "ism_external_session_id x = ism_external_session_id y"
    from x obtain x0 where x0: "x0 \<in> set (internal_sessions db)"
      "x = clear_current ?e None x0" by (auto simp add: rows1_def)
    from y obtain y0 where y0: "y0 \<in> set (internal_sessions db)"
      "y = clear_current ?e None y0" by (auto simp add: rows1_def)
    from x0 xi have "ism_id x0 = ism_id r0" by (simp add: r0)
    with d x0(1) r0(1) have "x0 = r0" by (simp add: distinct_same_key)
    with x0 e y0 have "ism_external_session_id y0 = ?e" by simp
    then have "\<not> ism_is_current (clear_current ?e None y0)"
      by (rule clear_current_none_not_current)
    with y0 show "\<not> ism_is_current y" by simp
  qed
  from d' p' rows show ?thesis by (simp add: wf_db_pairwise)
qed

lemma set_current_session_unique:
  assumes d: "distinct (map ism_id (internal_sessions db))"
    and r0: "r0 \<in> set (internal_sessions db)"
  shows "fst (set_current_session (ism_id r0) db) = Inr True
         \<and> (\<forall>r\<in>set (internal_sessions (snd (set_current_session (ism_id r0) db))).
               ism_external_session_id r = ism_external_session_id r0
                 \<longrightarrow> ism_is_current r = (ism_id r = ism_id r0))"
proof -
  let ?e = "ism_external_session_id r0"
  let ?g = "\<lambda>r. if ism_id r = ism_id r0 then r\<lparr>ism_is_current := True\<rparr> else r"
  have eq: "set_current_session (ism_id r0) db =
      (Inr True, db\<lparr>internal_sessions := map ?g (map (clear_current ?e None) (internal_sessions db))\<rparr>)"
    by (rule set_current_session_rows[OF d r0 refl])
  have "\<forall>r\<in>set (map ?g (map (clear_current ?e None) (internal_sessions db))).
          ism_external_session_id r = ?e \<longrightarrow> ism_is_current r = (ism_id r = ism_id r0)"
  proof (intro ballI impI)
    fix r
    assume "r \<in> set (map ?g (map (clear_current ?e None) (internal_sessions db)))"
      and e: "ism_external_session_id r = ?e"
    then obtain x where x: "x \<in> set (internal_sessions db)"
      and r: "r = ?g (clear_current ?e None x)" by auto
    show "ism_is_current r = (ism_id r = ism_id r0)"
    proof (cases "ism_id x = ism_id r0")
      case True
      with r show ?thesis by simp
    next
      case False
      with r have r': "r = clear_current ?e None x" by simp
      with e have "ism_external_session_id x = ?e" by simp
      then have "\<not> ism_is_current (clear_current ?e None x)"
        by (rule clear_current_none_not_current)
      with r' False show ?thesis by simp
    qed
  qed
  with eq show ?thesis by simp
qed

lemma apply_op_preserves_wf:
  assumes "wf_db db" and "updates_are_safe [op] db"
  shows "wf_db (apply_op op db)"
proof (cases op)
  case (Create session now)
  with assms show ?thesis by (simp add: create_preserves_wf)
next
  case (Update session)
  with assms show ?thesis by (simp add: update_preserves_wf)
next
  case (SetCurrent sid)
  with assms show ?thesis by (simp add: set_current_preserves_wf)
qed

lemma run_ops_preserves_wf:
  "wf_db db \<Longrightarrow> updates_are_safe ops db \<Longrightarrow> wf_db (run_ops ops db)"
proof (induction ops arbitrary: db)
  case Nil
  then show ?case by simp
next
  case (Cons op ops)
  have m: "updates_are_safe [op] db" and rest: "updates_are_safe ops (apply_op op db)"
    using Cons.prems(2) by (cases op; simp)+
  from apply_op_preserves_wf[OF Cons.prems(1) m] have "wf_db (apply_op op db)" .
  from Cons.IH[OF this rest] show ?case by simp
qed

lemma update_first_length [simp]: "length (update_first P f xs) = length xs"
  by (induction xs) simp_all

lemma update_first_nth:
  "i < length xs \<Longrightarrow> update_first P f xs ! i = xs ! i \<or> (P (xs ! i) \<and> update_first P f xs ! i = f (xs ! i))"
proof (induction xs arbitrary: i)
  case Nil
  then show ?case by simp
next
  case (Cons a xs)
  show ?case
  proof (cases i)
    case 0
    then show ?thesis by simp
  next
    case (Suc j)
    with Cons.prems have "j < length xs" by simp
    from Cons.IH[OF this] Suc show ?thesis by simp
  qed
qed

lemma clear_current_cases:
  "clear_current e x0 r = r \<or> clear_current e x0 r = r\<lparr>ism_is_current := False\<rparr>"
  by (simp add: clear_current_def)

lemma clear_current_excluded:
  "truthy x0 \<Longrightarrow> Some (ism_id r) = x0 \<Longrightarrow> clear_current e x0 r = r"
  by (simp add: clear_current_def)

lemma frame_kept_refl [simp]: "frame_kept r r"
  and frame_kept_cur [simp]: "frame_kept r (r\<lparr>ism_is_current := b\<rparr>)"
  and frame_kept_write [simp]: "frame_kept r (write_session s r)"
  by (simp_all add: frame_kept_def)

lemmas repo_eval =
  create_internal_session_def update_internal_session_def set_current_session_def
  get_internal_session_by_id_def row_to_session_def
  mark_all_not_current_eq get_db_connection_eq create_internal_session_body_def
  update_internal_session_body_def get_internal_session_by_id_body_def
  set_current_session_body_def stored_datetime_def
  internal_session_insertable_def next_id_def truthy_def first_def write_session_def
  clear_current_def db_empty_def db_two_def s_root_def s_branch_def s_branch_saved_def
  s_stale_def s_stale_idle_def t0_def Let_def current_unique_def current_count_def
  primary_keys_ok_def update_is_safe_def

text \<open>
  C1, as the code has it. Starting from a database whose primary keys are distinct and in
  which no external session has two current internal sessions, every sequence of
  \<open>create\<close>, \<open>update\<close> and \<open>set_current_session\<close> in which each \<open>update\<close> is safe leads
  to a database with the same two properties. An \<open>update\<close> that does not set
  \<open>is_current\<close>, or whose object has no id, is always safe; one that sets it is safe when
  the object carries the \<open>external_session_id\<close> of the stored row, or when no other row of
  the stored row's external session is current. The condition cannot be made weaker: in
  every database reached, an \<open>update\<close> keeps the invariant exactly when it is safe. And
  \<open>set_current_session\<close> on the id of an existing row returns \<open>True\<close> and leaves that row
  as the only current one of its external session.
\<close>

theorem current_uniqueness_invariant:
  assumes "primary_keys_ok db" and "current_unique db" and "updates_are_safe ops db"
  shows "primary_keys_ok (run_ops ops db)
         \<and> current_unique (run_ops ops db)
         \<and> (\<forall>e. current_count (run_ops ops db) e \<le> 1)
         \<and> (\<forall>session.
               current_unique (snd (update_internal_session session (run_ops ops db)))
                 = update_is_safe session (run_ops ops db))
         \<and> (\<forall>session. \<not> ins_is_current session \<or> \<not> truthy (ins_id session)
               \<longrightarrow> update_is_safe session (run_ops ops db))
         \<and> (\<forall>r0\<in>set (internal_sessions (run_ops ops db)).
               fst (set_current_session (ism_id r0) (run_ops ops db)) = Inr True
               \<and> (\<forall>r\<in>set (internal_sessions
                              (snd (set_current_session (ism_id r0) (run_ops ops db)))).
                     ism_external_session_id r = ism_external_session_id r0
                       \<longrightarrow> ism_is_current r = (ism_id r = ism_id r0)))"
proof -
  from assms have "wf_db db" by (simp add: wf_db_def)
  from this assms(3) have w: "wf_db (run_ops ops db)" by (rule run_ops_preserves_wf)
  then have k: "primary_keys_ok (run_ops ops db)" and u: "current_unique (run_ops ops db)"
    by (simp_all add: wf_db_def)
  from u have c: "\<forall>e. current_count (run_ops ops db) e \<le> 1"
    by (simp add: current_unique_forall)
  from k have d: "distinct (map ism_id (internal_sessions (run_ops ops db)))"
    by (simp add: primary_keys_ok_def)
  have x: "\<forall>session.
               current_unique (snd (update_internal_session session (run_ops ops db)))
                 = update_is_safe session (run_ops ops db)"
    using update_safe_iff[OF w] by simp
  have s: "\<forall>session. \<not> ins_is_current session \<or> \<not> truthy (ins_id session)
               \<longrightarrow> update_is_safe session (run_ops ops db)"
    by (simp add: update_is_safe_def)
  from k u c x s set_current_session_unique[OF d] show ?thesis by simp
qed

theorem current_uniqueness_invariant_witness:
  "primary_keys_ok db_empty \<and> current_unique db_empty
   \<and> updates_are_safe
        [Create s_root t0, Create s_branch t0, Update s_branch_saved, Update s_stale_idle,
         SetCurrent 1] db_empty
   \<and> ins_external_session_id s_stale_idle = 2
   \<and> map ism_external_session_id (internal_sessions db_two) = [1, 1]
   \<and> current_unique
        (run_ops
           [Create s_root t0, Create s_branch t0, Update s_branch_saved, Update s_stale_idle,
            SetCurrent 1] db_empty)
   \<and> map ism_is_current
        (internal_sessions
           (run_ops
              [Create s_root t0, Create s_branch t0, Update s_branch_saved, Update s_stale_idle,
               SetCurrent 1] db_empty)) = [True, False]"
proof -
  have k: "primary_keys_ok db_empty" and u: "current_unique db_empty"
    by (simp_all add: repo_eval)
  have m: "updates_are_safe
        [Create s_root t0, Create s_branch t0, Update s_branch_saved, Update s_stale_idle,
         SetCurrent 1] db_empty"
    by (simp add: repo_eval)
  have f: "ins_external_session_id s_stale_idle = 2
     \<and> map ism_external_session_id (internal_sessions db_two) = [1, 1]"
    by (simp add: repo_eval)
  have r: "map ism_is_current
        (internal_sessions
           (run_ops
              [Create s_root t0, Create s_branch t0, Update s_branch_saved, Update s_stale_idle,
               SetCurrent 1] db_empty)) = [True, False]"
    by (simp add: repo_eval)
  from current_uniqueness_invariant[OF k u m] k u m f r show ?thesis by simp
qed

text \<open>
  C1 as stated fails for \<open>update\<close>: the siblings are cleared under the
  \<open>external_session_id\<close> of the object passed in, not under the one of the stored row.
  After two creations in external session 1, an update of row 2 through an object that
  names external session 2 and is current leaves two current rows in external session 1.
\<close>

theorem stale_update_counterexample:
  "primary_keys_ok db_empty \<and> current_unique db_empty
   \<and> current_count
        (run_ops [Create s_root t0, Create s_branch t0, Update s_stale] db_empty) 1 = 2"
  by (simp add: repo_eval)

lemma stale_update_is_unsafe: "\<not> update_is_safe s_stale db_two"
  by (simp add: repo_eval)

text \<open>
  C10. \<open>update\<close> leaves the tables \<open>users\<close>, \<open>external_sessions\<close> and \<open>checkpoints\<close> as
  they are and keeps the number and the order of the rows of \<open>internal_sessions\<close>. In
  every row the columns \<open>id\<close>, \<open>langgraph_session_id\<close>, \<open>external_session_id\<close>,
  \<open>parent_session_id\<close>, \<open>branch_point_checkpoint_id\<close> and \<open>created_at\<close> are unchanged,
  and a row whose id is not the one of the session is unchanged or differs only by
  \<open>is_current\<close> having been cleared.
\<close>

theorem update_frame_condition:
  "users (snd (update_internal_session session db)) = users db
   \<and> external_sessions (snd (update_internal_session session db)) = external_sessions db
   \<and> checkpoints (snd (update_internal_session session db)) = checkpoints db
   \<and> list_all2 (update_frame session) (internal_sessions db)
        (internal_sessions (snd (update_internal_session session db)))"
proof -
  have other: "users (snd (update_internal_session session db)) = users db
   \<and> external_sessions (snd (update_internal_session session db)) = external_sessions db
   \<and> checkpoints (snd (update_internal_session session db)) = checkpoints db"
    by (simp add: update_internal_session_def update_internal_session_body_def
        mark_all_not_current_eq get_db_connection_eq split: option.splits)
  have rows: "list_all2 (update_frame session) (internal_sessions db)
        (internal_sessions (snd (update_internal_session session db)))"
  proof (cases "truthy (ins_id session)")
    case False
    then have "internal_sessions (snd (update_internal_session session db)) = internal_sessions db"
      by (simp add: update_internal_session_rows)
    then show ?thesis
      by (simp add: list_all2_conv_all_nth update_frame_def)
  next
    case True
    let ?P = "\<lambda>r. Some (ism_id r) = ins_id session"
    define rows1 where "rows1 = (if ins_is_current session
                then map (clear_current (ins_external_session_id session) (ins_id session))
                       (internal_sessions db)
                else internal_sessions db)"
    have eq: "internal_sessions (snd (update_internal_session session db)) =
            update_first ?P (write_session session) rows1"
      using True by (simp add: update_internal_session_rows rows1_def)
    have len: "length rows1 = length (internal_sessions db)" by (simp add: rows1_def)
    have one: "\<And>i. i < length (internal_sessions db) \<Longrightarrow>
             rows1 ! i = clear_current (ins_external_session_id session) (ins_id session)
                           (internal_sessions db ! i)
             \<or> rows1 ! i = internal_sessions db ! i"
      by (simp add: rows1_def)
    show ?thesis
      unfolding eq list_all2_conv_all_nth
    proof (intro conjI allI impI)
      show "length (internal_sessions db) = length (update_first ?P (write_session session) rows1)"
        by (simp add: len)
    next
      fix i
      assume i: "i < length (internal_sessions db)"
      let ?r = "internal_sessions db ! i"
      let ?r1 = "rows1 ! i"
      let ?r2 = "update_first ?P (write_session session) rows1 ! i"
      have r1: "?r1 = ?r \<or> ?r1 = ?r\<lparr>ism_is_current := False\<rparr>"
        using one[OF i] clear_current_cases[of "ins_external_session_id session" "ins_id session" ?r]
        by auto
      have r1id: "ism_id ?r1 = ism_id ?r" using r1 by auto
      have r2: "?r2 = ?r1 \<or> (?P ?r1 \<and> ?r2 = write_session session ?r1)"
        using update_first_nth[of i rows1 ?P "write_session session"] i len by simp
      show "update_frame session ?r ?r2"
      proof (cases "?P ?r")
        case True
        have "frame_kept ?r ?r1" using r1 by auto
        moreover have "frame_kept ?r1 ?r2" using r2 by auto
        ultimately have "frame_kept ?r ?r2" by (simp add: frame_kept_def)
        with True show ?thesis by (simp add: update_frame_def)
      next
        case False
        with r1id have "\<not> ?P ?r1" by simp
        with r2 have "?r2 = ?r1" by simp
        with r1 False show ?thesis by (auto simp add: update_frame_def)
      qed
    qed
  qed
  from other rows show ?thesis by simp
qed

theorem update_frame_condition_witness:
  "list_all2 (update_frame s_branch_saved) (internal_sessions db_two)
     (internal_sessions (snd (update_internal_session s_branch_saved db_two)))
   \<and> map ism_is_current (internal_sessions db_two) = [True, False]
   \<and> map ism_is_current (internal_sessions (snd (update_internal_session s_branch_saved db_two)))
       = [False, True]
   \<and> map ism_state_data (internal_sessions (snd (update_internal_session s_branch_saved db_two)))
       = [[(''step'', PInt 1)], [(''step'', PInt 2)]]"
proof -
  have "map ism_is_current (internal_sessions db_two) = [True, False]
   \<and> map ism_is_current (internal_sessions (snd (update_internal_session s_branch_saved db_two)))
       = [False, True]
   \<and> map ism_state_data (internal_sessions (snd (update_internal_session s_branch_saved db_two)))
       = [[(''step'', PInt 1)], [(''step'', PInt 2)]]"
    by (simp add: repo_eval)
  with update_frame_condition[of s_branch_saved db_two] show ?thesis by simp
qed

section \<open>Properties of \<open>CheckpointRepository\<close> and of the transaction block\<close>



lemma order_by_set [simp]: "set (order_by_created_desc_id_desc rows) = set rows"
  by (simp add: order_by_created_desc_id_desc_def)

lemma order_by_length [simp]: "length (order_by_created_desc_id_desc rows) = length rows"
  by (simp add: order_by_created_desc_id_desc_def)

lemma order_by_distinct [simp]: "distinct (order_by_created_desc_id_desc rows) = distinct rows"
  by (simp add: order_by_created_desc_id_desc_def)




lemma cp_id_row_to_checkpoint [simp]:
  "cp_id (row_to_checkpoint from_dict r) = Some (cpm_id r)"
  by (simp add: row_to_checkpoint_def)


text \<open>
  C9. \<open>get_latest_checkpoint\<close> returns the first element of the list that
  \<open>get_by_internal_session\<close> returns for the same session, and \<open>None\<close> exactly when
  that list is empty.
\<close>

theorem latest_checkpoint_agreement:
  "\<exists>cps. get_by_internal_session from_dict sid False db = (Inr cps, db)
         \<and> get_latest_checkpoint from_dict sid db =
             (Inr (case cps of [] \<Rightarrow> None | c # cs \<Rightarrow> Some c), db)
         \<and> ((get_latest_checkpoint from_dict sid db = (Inr None, db)) = (cps = []))"
proof -
  let ?rows = "order_by_created_desc_id_desc
                 (filter (\<lambda>r. cpm_internal_session_id r = sid) (checkpoints db))"
  have a: "get_by_internal_session from_dict sid False db =
             (Inr (map (row_to_checkpoint from_dict) ?rows), db)"
    by (simp add: get_by_internal_session_def get_db_connection_eq query_by_internal_session_def)
  have b: "get_latest_checkpoint from_dict sid db =
             (Inr (case map (row_to_checkpoint from_dict) ?rows of [] \<Rightarrow> None | c # cs \<Rightarrow> Some c), db)"
    by (cases ?rows) (simp_all add: get_latest_checkpoint_def get_db_connection_eq first_def)
  have c: "(get_latest_checkpoint from_dict sid db = (Inr None, db))
             = (map (row_to_checkpoint from_dict) ?rows = [])"
    unfolding b by (cases ?rows) simp_all
  from a b c show ?thesis by blast
qed

lemma dict_get_dict_set: "dict_get (dict_set d k v) k = Some v"
  by (induction d) (auto simp add: dict_get_def)

lemma create_checkpoint_row:
  assumes "create_checkpoint to_dict isoformat c now db = (Inr c', db')"
  shows "\<exists>row. checkpoints db' = checkpoints db @ [row]
           \<and> cpm_id row \<notin> set (map cpm_id (checkpoints db))
           \<and> cp_id c' = Some (cpm_id row)
           \<and> cp_created_at c' = Some now
           \<and> cpm_created_at row = stored_datetime (backend db) now
           \<and> dict_get (cpm_checkpoint_data row) ''created_at'' = Some (PStr (isoformat now))"
proof -
  from assms have ins: "checkpoint_insertable db c"
    by (auto simp add: create_checkpoint_def create_checkpoint_body_def get_db_connection_eq
        Let_def split: if_splits)
  let ?row = "\<lparr>cpm_id = next_id (map cpm_id (checkpoints db)),
               cpm_internal_session_id = cp_internal_session_id c,
               cpm_checkpoint_name = cp_checkpoint_name c,
               cpm_checkpoint_data = dict_set (to_dict c) ''created_at'' (PStr (isoformat now)),
               cpm_is_auto = cp_is_auto c,
               cpm_created_at = stored_datetime (backend db) now,
               cpm_user_id = cp_user_id c\<rparr>"
  from assms ins have db': "db' = db\<lparr>checkpoints := checkpoints db @ [?row]\<rparr>"
    and c': "c' = c\<lparr>cp_id := Some (cpm_id ?row), cp_created_at := Some now\<rparr>"
    by (simp_all add: create_checkpoint_def create_checkpoint_body_def get_db_connection_eq
        Let_def)
  have fresh: "cpm_id ?row \<notin> set (map cpm_id (checkpoints db))"
    using next_id_fresh[of "map cpm_id (checkpoints db)"] by simp
  show ?thesis
    apply (rule exI[of _ ?row])
    using db' c' fresh by (simp add: dict_get_dict_set)
qed

lemma create_checkpoint_coherent_postgresql:
  assumes "create_checkpoint to_dict isoformat c now db = (Inr c', db')"
    and "backend db = Postgresql" and "tz_aware now"
    and "list_all (payload_coherent isoformat) (checkpoints db)"
  shows "list_all (payload_coherent isoformat) (checkpoints db')"
proof -
  from create_checkpoint_row[OF assms(1)] obtain row where
    r: "checkpoints db' = checkpoints db @ [row]"
    and t: "cpm_created_at row = stored_datetime (backend db) now"
    and d: "dict_get (cpm_checkpoint_data row) ''created_at'' = Some (PStr (isoformat now))"
    by blast
  from assms(2,3) have "stored_datetime (backend db) now = now"
    by (simp add: stored_datetime_def)
  with t d have "payload_coherent isoformat row" by (simp add: payload_coherent_def)
  with r assms(4) show ?thesis by simp
qed

lemma order_by_filter:
  "order_by_created_desc_id_desc (filter P rows) = filter P (order_by_created_desc_id_desc rows)"
  by (simp only: order_by_created_desc_id_desc_def filter_sort[symmetric] rev_filter)

lemma auto_listing_eq:
  "query_by_internal_session db sid True =
     order_by_created_desc_id_desc
       (filter (\<lambda>r. cpm_internal_session_id r = sid \<and> cpm_is_auto r) (checkpoints db))"
  by (simp add: query_by_internal_session_def)

lemma filter_not_in_drop:
  assumes "distinct xs"
  shows "filter (\<lambda>r. r \<notin> set (drop n xs)) xs = take n xs"
proof -
  let ?P = "\<lambda>r. r \<notin> set (drop n xs)"
  have "distinct (take n xs @ drop n xs)" using assms by simp
  then have dis: "set (take n xs) \<inter> set (drop n xs) = {}" by (simp only: distinct_append)
  have t: "filter ?P (take n xs) = take n xs"
    using dis by (auto simp add: filter_id_conv)
  have d: "filter ?P (drop n xs) = []"
    by (simp add: filter_empty_conv)
  have "filter ?P xs = filter ?P (take n xs @ drop n xs)"
    by (simp only: append_take_drop_id)
  also have "\<dots> = filter ?P (take n xs) @ filter ?P (drop n xs)"
    by (simp only: filter_append)
  also have "\<dots> = take n xs" by (simp only: t d append_Nil2)
  finally show ?thesis .
qed

lemma length_filter_member:
  assumes "distinct xs" and "distinct ds" and "set ds \<subseteq> set xs"
  shows "length (filter (\<lambda>r. r \<in> set ds) xs) = length ds"
proof -
  have "length (filter (\<lambda>r. r \<in> set ds) xs) = card ({r. r \<in> set ds} \<inter> set xs)"
    using assms(1) by (rule distinct_length_filter)
  also have "{r. r \<in> set ds} \<inter> set xs = set ds" using assms(3) by auto
  also have "card (set ds) = length ds" using assms(2) by (rule distinct_card)
  finally show ?thesis .
qed

lemma delete_auto_cond:
  assumes d: "distinct (map cpm_id cps)"
    and autos: "autos = order_by_created_desc_id_desc
                  (filter (\<lambda>r. cpm_internal_session_id r = sid \<and> cpm_is_auto r) cps)"
    and r: "r \<in> set cps"
  shows "(cpm_internal_session_id r = sid \<and> cpm_is_auto r
            \<and> cpm_id r \<notin> set (map cpm_id (take n autos)))
         = (r \<in> set (drop n autos))"
proof -
  have dc: "distinct cps" using d by (simp add: distinct_map)
  have inj: "inj_on cpm_id (set cps)" using d by (simp add: distinct_map)
  have sa: "set autos = {x \<in> set cps. cpm_internal_session_id x = sid \<and> cpm_is_auto x}"
    by (auto simp add: autos)
  have da: "distinct autos" using dc by (simp add: autos)
  have "distinct (take n autos @ drop n autos)" using da by simp
  then have dis: "set (take n autos) \<inter> set (drop n autos) = {}"
    by (simp only: distinct_append)
  have un: "set autos = set (take n autos) \<union> set (drop n autos)"
    by (metis append_take_drop_id set_append)
  show ?thesis
  proof
    assume h: "cpm_internal_session_id r = sid \<and> cpm_is_auto r
            \<and> cpm_id r \<notin> set (map cpm_id (take n autos))"
    with r sa have "r \<in> set autos" by simp
    moreover from h have "r \<notin> set (take n autos)" by auto
    ultimately show "r \<in> set (drop n autos)" using un by simp
  next
    assume h: "r \<in> set (drop n autos)"
    then have ra: "r \<in> set autos" using un by simp
    then have a: "cpm_internal_session_id r = sid \<and> cpm_is_auto r" using sa by simp
    have "cpm_id r \<notin> set (map cpm_id (take n autos))"
    proof
      assume "cpm_id r \<in> set (map cpm_id (take n autos))"
      then obtain r' where r': "r' \<in> set (take n autos)" "cpm_id r' = cpm_id r" by auto
      then have "r' \<in> set autos" using un by simp
      then have "r' \<in> set cps" using sa by simp
      with inj r r'(2) have "r' = r" by (simp add: inj_on_eq_iff)
      with r'(1) h dis show False by auto
    qed
    with a show "cpm_internal_session_id r = sid \<and> cpm_is_auto r
            \<and> cpm_id r \<notin> set (map cpm_id (take n autos))" by simp
  qed
qed

lemma delete_auto_checkpoints_eq:
  assumes d: "distinct (map cpm_id (checkpoints db))"
  shows "delete_auto_checkpoints sid n db =
     (Inr (length (drop n (query_by_internal_session db sid True))),
      snd (delete_checkpoints_where
             (\<lambda>r. r \<in> set (drop n (query_by_internal_session db sid True))) db))
    \<and> checkpoints (snd (delete_auto_checkpoints sid n db)) =
        filter (\<lambda>r. r \<notin> set (drop n (query_by_internal_session db sid True))) (checkpoints db)"
proof -
  let ?cps = "checkpoints db"
  let ?A = "\<lambda>r. cpm_internal_session_id r = sid \<and> cpm_is_auto r"
  define autos where "autos = order_by_created_desc_id_desc (filter ?A ?cps)"
  have q: "query_by_internal_session db sid True = autos"
    by (simp add: auto_listing_eq autos_def)
  have dc: "distinct ?cps" using d by (simp add: distinct_map)
  have sa: "set autos = {x \<in> set ?cps. ?A x}" by (auto simp add: autos_def)
  have da: "distinct autos" using dc by (simp add: autos_def)
  let ?D = "drop n autos"
  let ?c1 = "\<lambda>r. cpm_internal_session_id r = sid \<and> cpm_is_auto r
                   \<and> cpm_id r \<notin> set (map cpm_id (take n autos))"
  have c1: "\<And>r. r \<in> set ?cps \<Longrightarrow> ?c1 r = (r \<in> set ?D)"
    by (rule delete_auto_cond[OF d autos_def])
  have c2: "take n autos = [] \<Longrightarrow> (\<And>r. r \<in> set ?cps \<Longrightarrow> ?A r = (r \<in> set ?D))"
  proof -
    fix r
    assume t: "take n autos = []" and r: "r \<in> set ?cps"
    have "take n autos @ drop n autos = autos" by (rule append_take_drop_id)
    then have "drop n autos = autos" unfolding t by simp
    with sa r show "?A r = (r \<in> set ?D)" by simp
  qed
  have same: "\<And>cond. (\<And>r. r \<in> set ?cps \<Longrightarrow> cond r = (r \<in> set ?D)) \<Longrightarrow>
      delete_checkpoints_where cond db = delete_checkpoints_where (\<lambda>r. r \<in> set ?D) db"
  proof -
    fix cond :: "checkpoint_row \<Rightarrow> bool"
    assume h: "\<And>r. r \<in> set ?cps \<Longrightarrow> cond r = (r \<in> set ?D)"
    have f1: "filter cond ?cps = filter (\<lambda>r. r \<in> set ?D) ?cps"
      by (rule filter_cong) (simp_all add: h)
    have f2: "filter (\<lambda>r. \<not> cond r) ?cps = filter (\<lambda>r. r \<notin> set ?D) ?cps"
      by (rule filter_cong) (simp_all add: h)
    show "delete_checkpoints_where cond db = delete_checkpoints_where (\<lambda>r. r \<in> set ?D) db"
      by (simp add: delete_checkpoints_where_def Let_def f1 f2)
  qed
  have sub: "set ?D \<subseteq> set ?cps" using sa by (auto dest: in_set_dropD)
  have len: "length (filter (\<lambda>r. r \<in> set ?D) ?cps) = length ?D"
    using dc _ sub by (rule length_filter_member) (simp add: da)
  have unf: "delete_auto_checkpoints sid n db =
      (if map cpm_id (take n autos) \<noteq> []
       then (case delete_checkpoints_where ?c1 db of (k, db') \<Rightarrow> (Inr k, db'))
       else (case delete_checkpoints_where ?A db of (k, db') \<Rightarrow> (Inr k, db')))"
    by (simp add: delete_auto_checkpoints_def get_db_connection_eq Let_def autos_def
        case_prod_beta)
  have res: "delete_auto_checkpoints sid n db =
      (Inr (fst (delete_checkpoints_where (\<lambda>r. r \<in> set ?D) db)),
       snd (delete_checkpoints_where (\<lambda>r. r \<in> set ?D) db))"
  proof (cases "take n autos = []")
    case True
    have "delete_checkpoints_where ?A db = delete_checkpoints_where (\<lambda>r. r \<in> set ?D) db"
      by (rule same) (rule c2[OF True])
    with True show ?thesis unfolding unf by (simp add: case_prod_beta)
  next
    case False
    have "delete_checkpoints_where ?c1 db = delete_checkpoints_where (\<lambda>r. r \<in> set ?D) db"
      by (rule same) (rule c1)
    moreover from False have "map cpm_id (take n autos) \<noteq> []" by (simp only: map_is_Nil_conv not_False_eq_True)
    ultimately show ?thesis unfolding unf by (simp add: case_prod_beta)
  qed
  have fstv: "fst (delete_checkpoints_where (\<lambda>r. r \<in> set ?D) db) = length ?D"
    by (simp add: delete_checkpoints_where_def Let_def len)
  have sndv: "checkpoints (snd (delete_checkpoints_where (\<lambda>r. r \<in> set ?D) db)) =
      filter (\<lambda>r. r \<notin> set ?D) ?cps"
    by (simp add: delete_checkpoints_where_def Let_def)
  from res fstv sndv show ?thesis unfolding q by simp
qed

text \<open>
  C6. With \<open>autos\<close> the auto-checkpoints of the session listed by
  \<open>(created_at DESC, id DESC)\<close>, \<open>delete_auto_checkpoints\<close> with \<open>keep_latest = n\<close>
  deletes exactly the rows of \<open>autos\<close> after the first \<open>n\<close> and returns their number;
  the first \<open>n\<close> are what the listing shows afterwards; no manual checkpoint is
  deleted; with \<open>n = 0\<close> no auto-checkpoint of the session is left; with at most \<open>n\<close>
  auto-checkpoints nothing is deleted. The primary key of \<open>checkpoints\<close> is assumed.
\<close>

theorem prune_auto_checkpoints:
  assumes d: "distinct (map cpm_id (checkpoints db))"
  shows "fst (delete_auto_checkpoints sid n db)
           = Inr (length (query_by_internal_session db sid True) - n)
   \<and> checkpoints (snd (delete_auto_checkpoints sid n db))
       = filter (\<lambda>r. r \<notin> set (drop n (query_by_internal_session db sid True))) (checkpoints db)
   \<and> query_by_internal_session (snd (delete_auto_checkpoints sid n db)) sid True
       = take n (query_by_internal_session db sid True)
   \<and> (\<forall>r\<in>set (checkpoints db). \<not> cpm_is_auto r
          \<longrightarrow> r \<in> set (checkpoints (snd (delete_auto_checkpoints sid n db))))
   \<and> (n = 0 \<longrightarrow> query_by_internal_session (snd (delete_auto_checkpoints sid n db)) sid True = [])
   \<and> (length (query_by_internal_session db sid True) \<le> n
          \<longrightarrow> checkpoints (snd (delete_auto_checkpoints sid n db)) = checkpoints db)"
proof -
  let ?autos = "query_by_internal_session db sid True"
  let ?db' = "snd (delete_auto_checkpoints sid n db)"
  let ?A = "\<lambda>r. cpm_internal_session_id r = sid \<and> cpm_is_auto r"
  have r1: "fst (delete_auto_checkpoints sid n db) = Inr (length ?autos - n)"
    using delete_auto_checkpoints_eq[OF d, of sid n, THEN conjunct1] by simp
  have r2: "checkpoints ?db' = filter (\<lambda>r. r \<notin> set (drop n ?autos)) (checkpoints db)"
    by (rule delete_auto_checkpoints_eq[OF d, of sid n, THEN conjunct2])
  have dc: "distinct (checkpoints db)" using d by (simp add: distinct_map)
  have da: "distinct ?autos" using dc by (simp add: auto_listing_eq)
  have sa: "set ?autos = {x \<in> set (checkpoints db). ?A x}"
    by (auto simp add: auto_listing_eq)
  have "query_by_internal_session ?db' sid True
          = order_by_created_desc_id_desc
              (filter ?A (filter (\<lambda>r. r \<notin> set (drop n ?autos)) (checkpoints db)))"
    by (simp only: auto_listing_eq[of ?db'] r2)
  also have "filter ?A (filter (\<lambda>r. r \<notin> set (drop n ?autos)) (checkpoints db))
          = filter (\<lambda>r. r \<notin> set (drop n ?autos)) (filter ?A (checkpoints db))"
    by (simp only: filter_filter conj_commute)
  also have "order_by_created_desc_id_desc \<dots>
          = filter (\<lambda>r. r \<notin> set (drop n ?autos)) ?autos"
    by (simp only: order_by_filter auto_listing_eq[of db])
  also have "\<dots> = take n ?autos" using da by (rule filter_not_in_drop)
  finally have r3: "query_by_internal_session ?db' sid True = take n ?autos" .
  have r4: "\<forall>r\<in>set (checkpoints db). \<not> cpm_is_auto r \<longrightarrow> r \<in> set (checkpoints ?db')"
  proof (intro ballI impI)
    fix r assume r: "r \<in> set (checkpoints db)" and m: "\<not> cpm_is_auto r"
    have "r \<notin> set (drop n ?autos)"
    proof
      assume "r \<in> set (drop n ?autos)"
      then have "r \<in> set ?autos" by (rule in_set_dropD)
      with sa m show False by simp
    qed
    with r show "r \<in> set (checkpoints ?db')" by (simp add: r2)
  qed
  have r5: "n = 0 \<longrightarrow> query_by_internal_session ?db' sid True = []"
    unfolding r3 by simp
  have r6: "length ?autos \<le> n \<longrightarrow> checkpoints ?db' = checkpoints db"
    unfolding r2 by simp
  from r1 r2 r3 r4 r5 r6 show ?thesis by (intro conjI)
qed

lemmas checkpoint_eval =
  delete_auto_checkpoints_def delete_checkpoints_where_def query_by_internal_session_def
  order_by_created_desc_id_desc_def order_key_def get_db_connection_eq Let_def
  db_cps_def cpr_def

theorem prune_auto_checkpoints_witness:
  "distinct (map cpm_id (checkpoints db_cps))
   \<and> map cpm_id (query_by_internal_session db_cps 1 True) = [4, 3, 2]
   \<and> fst (delete_auto_checkpoints 1 2 db_cps) = Inr 1
   \<and> map cpm_id (checkpoints (snd (delete_auto_checkpoints 1 2 db_cps))) = [1, 3, 4, 5]"
proof -
  have d: "distinct (map cpm_id (checkpoints db_cps))"
    by (simp add: db_cps_def cpr_def)
  have q: "query_by_internal_session db_cps 1 True = [cpr 4 1 True 1002, cpr 3 1 True 1002, cpr 2 1 True 1001]"
    by (simp add: checkpoint_eval)
  have c: "checkpoints db_cps = [cpr 1 1 False 1000, cpr 2 1 True 1001, cpr 3 1 True 1002, cpr 4 1 True 1002,
        cpr 5 2 True 1003]"
    by (simp add: db_cps_def)
  have "fst (delete_auto_checkpoints 1 2 db_cps) = Inr 1"
    using prune_auto_checkpoints[OF d, of 1 2, THEN conjunct1] by (simp add: q)
  moreover have "checkpoints (snd (delete_auto_checkpoints 1 2 db_cps))
       = filter (\<lambda>r. r \<notin> set (drop 2 (query_by_internal_session db_cps 1 True))) (checkpoints db_cps)"
    by (rule prune_auto_checkpoints[OF d, of 1 2, THEN conjunct2, THEN conjunct1])
  ultimately show ?thesis using d by (simp add: q c cpr_def)
qed

lemmas create_checkpoint_eval =
  create_checkpoint_def create_checkpoint_body_def checkpoint_insertable_def
  get_db_connection_eq stored_datetime_def next_id_def Let_def
  sample_to_dict_def sample_isoformat_def cp_new_def cp_saved_def db_saved_def cp_orphan_def
  cp_blank_def

text \<open>
  C5 on the default backend. \<open>create\<close> patches the payload with the ISO form of the
  \<open>created_at\<close> of the ORM object, the aware value \<open>datetime.now(timezone.utc)\<close>, while
  the SQLite column keeps no timezone: the row of a checkpoint created at the instant
  \<open>t0\<close> has the payload \<open>1970-01-01T00:16:40+00:00\<close>, and the ISO form of its column is
  \<open>1970-01-01T00:16:40\<close>.
\<close>

theorem checkpoint_timestamp_incoherence:
  "backend db_two = Sqlite \<and> tz_aware t0
   \<and> create_checkpoint sample_to_dict sample_isoformat cp_new t0 db_two
        = (Inr cp_saved, db_saved)
   \<and> map cpm_id (checkpoints db_saved) = [1]
   \<and> map (\<lambda>r. dict_get (cpm_checkpoint_data r) ''created_at'') (checkpoints db_saved)
        = [Some (PStr ''1970-01-01T00:16:40+00:00'')]
   \<and> map (\<lambda>r. sample_isoformat (cpm_created_at r)) (checkpoints db_saved)
        = [''1970-01-01T00:16:40'']
   \<and> \<not> list_all (payload_coherent sample_isoformat) (checkpoints db_saved)"
proof -
  have b: "backend db_two = Sqlite \<and> tz_aware t0"
    by (simp add: repo_eval)
  have e: "create_checkpoint sample_to_dict sample_isoformat cp_new t0 db_two
             = (Inr cp_saved, db_saved)"
    by (simp add: create_checkpoint_eval repo_eval)
  have m: "map cpm_id (checkpoints db_saved) = [1]
     \<and> map (\<lambda>r. dict_get (cpm_checkpoint_data r) ''created_at'') (checkpoints db_saved)
        = [Some (PStr ''1970-01-01T00:16:40+00:00'')]
     \<and> map (\<lambda>r. sample_isoformat (cpm_created_at r)) (checkpoints db_saved)
        = [''1970-01-01T00:16:40'']
     \<and> \<not> list_all (payload_coherent sample_isoformat) (checkpoints db_saved)"
    by (simp add: db_saved_def dict_get_def sample_isoformat_def t0_def payload_coherent_def)
  from b e m show ?thesis by simp
qed


lemma run_session_closed: "is_closed (snd (run_session commit_fails body db))"
  by (simp add: run_session_def session_local_def session_commit_def session_rollback_def
      session_close_def Let_def split: prod.splits sum.splits)

lemma run_session_tx_state:
  "tx_state (snd (run_session commit_fails body db))
     = (case fst (run_session commit_fails body db) of
          Inl e \<Rightarrow> Rolled_back | Inr r \<Rightarrow> Committed)"
  by (simp add: run_session_def session_local_def session_commit_def session_rollback_def
      session_close_def Let_def split: prod.splits sum.splits)

lemma block_raises:
  "fst (get_db_connection_failing commit_fails body db) = Inl e
     \<Longrightarrow> snd (get_db_connection_failing commit_fails body db) = db"
  by (simp add: get_db_connection_failing_eq split: prod.splits sum.splits if_splits)

lemma block_returns:
  "fst (get_db_connection_failing commit_fails body db) = Inr r
     \<Longrightarrow> \<not> commit_fails \<and> body db = (Inr r, snd (get_db_connection_failing commit_fails body db))"
  by (simp add: get_db_connection_failing_eq split: prod.splits sum.splits if_splits)

lemma two_blocks_raises:
  assumes r: "\<And>d. snd (body0 d) = d"
    and f: "fst (two_blocks fails0 body0 fails1 body1 db) = Inl e"
  shows "snd (two_blocks fails0 body0 fails1 body1 db) = db"
proof (cases "get_db_connection_failing fails0 body0 db")
  case (Pair outcome db0)
  show ?thesis
  proof (cases outcome)
    case (Inl e0)
    with Pair have "fst (get_db_connection_failing fails0 body0 db) = Inl e0" by simp
    from block_raises[OF this] Pair Inl show ?thesis by (simp add: two_blocks_def)
  next
    case (Inr v)
    with Pair have "fst (get_db_connection_failing fails0 body0 db) = Inr v" by simp
    from block_returns[OF this] Pair have "body0 db = (Inr v, db0)" by simp
    with r[of db] have d0: "db0 = db" by simp
    from f Pair Inr have "fst (get_db_connection_failing fails1 (body1 v) db0) = Inl e"
      by (simp add: two_blocks_def)
    from block_raises[OF this] Pair Inr d0 show ?thesis by (simp add: two_blocks_def)
  qed
qed

lemma mark_all_not_current_failing_eq:
  "mark_all_not_current_failing commit_fails e x db =
     (if commit_fails then (Inl OperationalError, db) else (Inr (), siblings_cleared e x db))"
  by (simp add: mark_all_not_current_failing_def mark_all_not_current_body_def
      get_db_connection_failing_eq siblings_cleared_def)

lemma update_checkpoint_metadata_raises:
  assumes "fst (update_checkpoint_metadata_failing fails to_dict from_dict checkpoint_id
                  metadata db) = Inl e"
  shows "snd (update_checkpoint_metadata_failing fails to_dict from_dict checkpoint_id
                metadata db) = db"
proof (cases "fails 0")
  case True
  then show ?thesis
    by (simp add: update_checkpoint_metadata_failing_def get_db_connection_failing_eq
        get_checkpoint_by_id_body_def split: option.splits)
next
  case False
  show ?thesis
  proof (cases "first (filter (\<lambda>r. cpm_id r = checkpoint_id) (checkpoints db))")
    case None
    with False show ?thesis
      by (simp add: update_checkpoint_metadata_failing_def get_db_connection_failing_eq
          get_checkpoint_by_id_body_def)
  next
    case (Some r0)
    let ?d = "to_dict ((row_to_checkpoint from_dict r0)
                \<lparr>cp_metadata := dict_update (cp_metadata (row_to_checkpoint from_dict r0))
                                  metadata\<rparr>)"
    have u: "update_checkpoint_metadata_failing fails to_dict from_dict checkpoint_id
               metadata db =
             get_db_connection_failing (fails 1)
               (update_checkpoint_metadata_body checkpoint_id ?d) db"
      using False Some
      by (simp add: update_checkpoint_metadata_failing_def get_db_connection_failing_eq
          get_checkpoint_by_id_body_def Let_def)
    from assms show ?thesis unfolding u by (rule block_raises)
  qed
qed

lemma create_internal_session_raises:
  assumes "fst (create_internal_session_failing fails session now db) = Inl e"
  shows "snd (create_internal_session_failing fails session now db) =
           (if ins_is_current session \<and> \<not> fails 0
            then siblings_cleared (ins_external_session_id session) None db else db)"
proof (cases "ins_is_current session \<and> \<not> fails 0")
  case True
  let ?db1 = "siblings_cleared (ins_external_session_id session) None db"
  have u: "create_internal_session_failing fails session now db =
             get_db_connection_failing (fails 1) (create_internal_session_body session now) ?db1"
    using True by (simp add: create_internal_session_failing_def mark_all_not_current_failing_eq)
  from assms have "snd (get_db_connection_failing (fails 1)
                          (create_internal_session_body session now) ?db1) = ?db1"
    unfolding u by (rule block_raises)
  with True show ?thesis unfolding u by simp
next
  case False
  show ?thesis
  proof (cases "ins_is_current session")
    case True
    with False have "fails 0" by simp
    with True show ?thesis
      by (simp add: create_internal_session_failing_def mark_all_not_current_failing_eq)
  next
    case c: False
    have u: "create_internal_session_failing fails session now db =
             get_db_connection_failing (fails 1) (create_internal_session_body session now) db"
      using c by (simp add: create_internal_session_failing_def)
    from assms have "snd (get_db_connection_failing (fails 1)
                          (create_internal_session_body session now) db) = db"
      unfolding u by (rule block_raises)
    with c show ?thesis unfolding u by simp
  qed
qed

lemma update_internal_session_raises:
  assumes "fst (update_internal_session_failing fails session db) = Inl e"
  shows "snd (update_internal_session_failing fails session db) =
           (if ins_is_current session \<and> \<not> fails 0
            then siblings_cleared (ins_external_session_id session) (ins_id session) db
            else db)"
proof -
  from assms have t: "truthy (ins_id session)"
    by (cases "truthy (ins_id session)") (simp_all add: update_internal_session_failing_def)
  show ?thesis
  proof (cases "ins_is_current session \<and> \<not> fails 0")
    case True
    let ?db1 = "siblings_cleared (ins_external_session_id session) (ins_id session) db"
    have u: "update_internal_session_failing fails session db =
             get_db_connection_failing (fails 1) (update_internal_session_body session) ?db1"
      using True t
      by (simp add: update_internal_session_failing_def mark_all_not_current_failing_eq)
    from assms have "snd (get_db_connection_failing (fails 1)
                          (update_internal_session_body session) ?db1) = ?db1"
      unfolding u by (rule block_raises)
    with True show ?thesis unfolding u by simp
  next
    case False
    show ?thesis
    proof (cases "ins_is_current session")
      case True
      with False have "fails 0" by simp
      with True t show ?thesis
        by (simp add: update_internal_session_failing_def mark_all_not_current_failing_eq)
    next
      case c: False
      have u: "update_internal_session_failing fails session db =
             get_db_connection_failing (fails 1) (update_internal_session_body session) db"
        using c t by (simp add: update_internal_session_failing_def)
      from assms have "snd (get_db_connection_failing (fails 1)
                          (update_internal_session_body session) db) = db"
        unfolding u by (rule block_raises)
      with c show ?thesis unfolding u by simp
    qed
  qed
qed

lemma set_current_session_raises:
  assumes "fst (set_current_session_failing fails session_id db) = Inl e"
  shows "snd (set_current_session_failing fails session_id db) =
           (if fails 0 \<or> fails 1 then db
            else case first (filter (\<lambda>r. ism_id r = session_id) (internal_sessions db)) of
                   Some r0 \<Rightarrow> siblings_cleared (ism_external_session_id r0) None db
                 | None \<Rightarrow> db)"
proof (cases "fails 0")
  case True
  then show ?thesis
    by (simp add: set_current_session_failing_def get_db_connection_failing_eq
        get_internal_session_by_id_body_def split: option.splits)
next
  case f0: False
  show ?thesis
  proof (cases "first (filter (\<lambda>r. ism_id r = session_id) (internal_sessions db))")
    case None
    with f0 show ?thesis
      by (simp add: set_current_session_failing_def get_db_connection_failing_eq
          get_internal_session_by_id_body_def)
  next
    case (Some r0)
    let ?db1 = "siblings_cleared (ism_external_session_id r0) None db"
    show ?thesis
    proof (cases "fails 1")
      case True
      with f0 Some show ?thesis
        by (simp add: set_current_session_failing_def get_db_connection_failing_eq
            get_internal_session_by_id_body_def mark_all_not_current_failing_eq
            row_to_session_def)
    next
      case f1: False
      have u: "set_current_session_failing fails session_id db =
                 get_db_connection_failing (fails 2) (set_current_session_body session_id) ?db1"
        using f0 f1 Some
        by (simp add: set_current_session_failing_def get_db_connection_failing_eq
            get_internal_session_by_id_body_def mark_all_not_current_failing_eq
            row_to_session_def)
      from assms have "snd (get_db_connection_failing (fails 2)
                              (set_current_session_body session_id) ?db1) = ?db1"
        unfolding u by (rule block_raises)
      with f0 f1 Some show ?thesis unfolding u by simp
    qed
  qed
qed

lemma get_db_connection_fun: "get_db_connection = get_db_connection_failing False"
  by (intro ext) (simp add: get_db_connection_def)

lemma failing_never:
  "create_internal_session_failing (\<lambda>k. False) session now db
     = create_internal_session session now db"
  "update_internal_session_failing (\<lambda>k. False) session db = update_internal_session session db"
  "set_current_session_failing (\<lambda>k. False) session_id db = set_current_session session_id db"
  "update_checkpoint_metadata_failing (\<lambda>k. False) to_dict from_dict checkpoint_id metadata db
     = update_checkpoint_metadata to_dict from_dict checkpoint_id metadata db"
  unfolding create_internal_session_failing_def create_internal_session_def
    update_internal_session_failing_def update_internal_session_def
    set_current_session_failing_def set_current_session_def
    update_checkpoint_metadata_failing_def update_checkpoint_metadata_def
    mark_all_not_current_failing_def mark_all_not_current_def
    get_internal_session_by_id_def get_checkpoint_by_id_def get_db_connection_fun
  by (rule refl)+

text \<open>
  C2, as the code has it. Every \<open>with get_db_connection\<close> block closes its session, with
  the transaction committed when the block returns and rolled back when it raises, be it
  from the body or from the commit; a block that raises leaves the database as it found
  it, and a block that returns leaves the view of its body. So an operation made of one
  block leaves the database in its pre-operation state when it raises, and so does an
  operation whose blocks before the last only read: any two blocks of which the first
  only reads, and \<open>update_checkpoint_metadata\<close>. The operations that write in a block
  before the last are atomic block by block only. When \<open>create\<close> or \<open>update\<close> of a
  session with \<open>is_current = true\<close> raises after the first block has committed, and when
  \<open>set_current_session\<close> raises in its third block, the database is the pre-operation
  state with \<open>is_current\<close> cleared on the siblings. The operations of the sections above
  are those in which no commit fails.
\<close>

theorem block_atomicity:
  "is_closed (snd (run_session commit_fails body db))
   \<and> tx_state (snd (run_session commit_fails body db))
       = (case fst (run_session commit_fails body db) of
            Inl e \<Rightarrow> Rolled_back | Inr r \<Rightarrow> Committed)
   \<and> (\<forall>r. fst (get_db_connection_failing commit_fails body db) = Inr r
          \<longrightarrow> \<not> commit_fails
              \<and> body db = (Inr r, snd (get_db_connection_failing commit_fails body db)))
   \<and> (\<forall>e. fst (get_db_connection_failing commit_fails body db) = Inl e
          \<longrightarrow> snd (get_db_connection_failing commit_fails body db) = db)
   \<and> ((\<forall>d. snd (body0 d) = d) \<longrightarrow>
        (\<forall>e. fst (two_blocks fails0 body0 fails1 body1 db0) = Inl e
           \<longrightarrow> snd (two_blocks fails0 body0 fails1 body1 db0) = db0))
   \<and> (\<forall>e. fst (update_checkpoint_metadata_failing fails to_dict from_dict checkpoint_id
                  metadata db1) = Inl e
          \<longrightarrow> snd (update_checkpoint_metadata_failing fails to_dict from_dict checkpoint_id
                     metadata db1) = db1)
   \<and> (\<forall>e. fst (create_internal_session_failing fails session now db2) = Inl e
          \<longrightarrow> snd (create_internal_session_failing fails session now db2) =
                (if ins_is_current session \<and> \<not> fails 0
                 then siblings_cleared (ins_external_session_id session) None db2 else db2))
   \<and> (\<forall>e. fst (update_internal_session_failing fails session db3) = Inl e
          \<longrightarrow> snd (update_internal_session_failing fails session db3) =
                (if ins_is_current session \<and> \<not> fails 0
                 then siblings_cleared (ins_external_session_id session) (ins_id session) db3
                 else db3))
   \<and> (\<forall>e. fst (set_current_session_failing fails session_id db4) = Inl e
          \<longrightarrow> snd (set_current_session_failing fails session_id db4) =
                (if fails 0 \<or> fails 1 then db4
                 else case first (filter (\<lambda>r. ism_id r = session_id)
                                    (internal_sessions db4)) of
                        Some r0 \<Rightarrow> siblings_cleared (ism_external_session_id r0) None db4
                      | None \<Rightarrow> db4))
   \<and> create_internal_session_failing (\<lambda>k. False) session now db2
       = create_internal_session session now db2
   \<and> update_internal_session_failing (\<lambda>k. False) session db3
       = update_internal_session session db3
   \<and> set_current_session_failing (\<lambda>k. False) session_id db4
       = set_current_session session_id db4
   \<and> update_checkpoint_metadata_failing (\<lambda>k. False) to_dict from_dict checkpoint_id metadata db1
       = update_checkpoint_metadata to_dict from_dict checkpoint_id metadata db1"
proof (intro conjI allI impI)
  show "is_closed (snd (run_session commit_fails body db))" by (rule run_session_closed)
next
  show "tx_state (snd (run_session commit_fails body db))
       = (case fst (run_session commit_fails body db) of
            Inl e \<Rightarrow> Rolled_back | Inr r \<Rightarrow> Committed)" by (rule run_session_tx_state)
next
  fix r assume "fst (get_db_connection_failing commit_fails body db) = Inr r"
  from block_returns[OF this] show "\<not> commit_fails" by simp
next
  fix r assume "fst (get_db_connection_failing commit_fails body db) = Inr r"
  from block_returns[OF this]
  show "body db = (Inr r, snd (get_db_connection_failing commit_fails body db))" by simp
next
  fix e assume "fst (get_db_connection_failing commit_fails body db) = Inl e"
  then show "snd (get_db_connection_failing commit_fails body db) = db" by (rule block_raises)
next
  fix e assume "\<forall>d. snd (body0 d) = d"
    and "fst (two_blocks fails0 body0 fails1 body1 db0) = Inl e"
  then show "snd (two_blocks fails0 body0 fails1 body1 db0) = db0"
    by (simp add: two_blocks_raises)
next
  fix e assume "fst (update_checkpoint_metadata_failing fails to_dict from_dict checkpoint_id
                  metadata db1) = Inl e"
  then show "snd (update_checkpoint_metadata_failing fails to_dict from_dict checkpoint_id
                     metadata db1) = db1" by (rule update_checkpoint_metadata_raises)
next
  fix e assume "fst (create_internal_session_failing fails session now db2) = Inl e"
  then show "snd (create_internal_session_failing fails session now db2) =
                (if ins_is_current session \<and> \<not> fails 0
                 then siblings_cleared (ins_external_session_id session) None db2 else db2)"
    by (rule create_internal_session_raises)
next
  fix e assume "fst (update_internal_session_failing fails session db3) = Inl e"
  then show "snd (update_internal_session_failing fails session db3) =
                (if ins_is_current session \<and> \<not> fails 0
                 then siblings_cleared (ins_external_session_id session) (ins_id session) db3
                 else db3)"
    by (rule update_internal_session_raises)
next
  fix e assume "fst (set_current_session_failing fails session_id db4) = Inl e"
  then show "snd (set_current_session_failing fails session_id db4) =
                (if fails 0 \<or> fails 1 then db4
                 else case first (filter (\<lambda>r. ism_id r = session_id)
                                    (internal_sessions db4)) of
                        Some r0 \<Rightarrow> siblings_cleared (ism_external_session_id r0) None db4
                      | None \<Rightarrow> db4)"
    by (rule set_current_session_raises)
qed (rule failing_never)+

theorem block_atomicity_witness:
  "fst (get_db_connection_failing False
          (create_checkpoint_body sample_to_dict sample_isoformat cp_orphan t0) db_two)
     = Inl IntegrityError
   \<and> checkpoints db_two = []
   \<and> length (checkpoints
               (snd (create_checkpoint_body sample_to_dict sample_isoformat cp_orphan t0
                       db_two))) = 1
   \<and> snd (get_db_connection_failing False
            (create_checkpoint_body sample_to_dict sample_isoformat cp_orphan t0) db_two)
       = db_two
   \<and> fst (get_db_connection_failing False (mark_all_not_current_body 1 None) db_two) = Inr ()
   \<and> mark_all_not_current_body 1 None db_two
       = (Inr (), snd (get_db_connection_failing False (mark_all_not_current_body 1 None)
                         db_two))
   \<and> fst (two_blocks False (get_internal_session_by_id_body 1) True
            (\<lambda>r. set_current_session_body 2) db_two) = Inl OperationalError
   \<and> snd (two_blocks False (get_internal_session_by_id_body 1) True
            (\<lambda>r. set_current_session_body 2) db_two) = db_two
   \<and> fst (update_checkpoint_metadata_failing (\<lambda>k. k = 1) sample_to_dict sample_from_dict 1
            [(''note'', PStr ''kept'')] db_saved) = Inl OperationalError
   \<and> snd (update_checkpoint_metadata_failing (\<lambda>k. k = 1) sample_to_dict sample_from_dict 1
            [(''note'', PStr ''kept'')] db_saved) = db_saved
   \<and> fst (create_internal_session_failing (\<lambda>k. False) s_root t0 db_two) = Inl IntegrityError
   \<and> snd (create_internal_session_failing (\<lambda>k. False) s_root t0 db_two)
       = siblings_cleared 1 None db_two
   \<and> fst (update_internal_session_failing (\<lambda>k. k = 1) s_branch_saved db_two)
       = Inl OperationalError
   \<and> snd (update_internal_session_failing (\<lambda>k. k = 1) s_branch_saved db_two)
       = siblings_cleared 1 (Some 2) db_two
   \<and> fst (set_current_session_failing (\<lambda>k. k = 2) 2 db_two) = Inl OperationalError
   \<and> snd (set_current_session_failing (\<lambda>k. k = 2) 2 db_two) = siblings_cleared 1 None db_two
   \<and> map ism_is_current (internal_sessions db_two) = [True, False]
   \<and> map ism_is_current (internal_sessions (siblings_cleared 1 None db_two)) = [False, False]
   \<and> map ism_is_current (internal_sessions (siblings_cleared 1 (Some 2) db_two))
       = [False, False]"
proof -
  have rows: "map ism_is_current (internal_sessions db_two) = [True, False]
     \<and> map ism_is_current (internal_sessions (siblings_cleared 1 None db_two)) = [False, False]
     \<and> map ism_is_current (internal_sessions (siblings_cleared 1 (Some 2) db_two))
         = [False, False]
     \<and> checkpoints db_two = []"
    by (simp add: repo_eval siblings_cleared_def)
  have ids: "map ism_id (internal_sessions db_two) = [1, 2]
     \<and> map ism_external_session_id (internal_sessions db_two) = [1, 1]"
    by (simp add: repo_eval)

  have a: "fst (get_db_connection_failing False
                  (create_checkpoint_body sample_to_dict sample_isoformat cp_orphan t0) db_two)
             = Inl IntegrityError"
    by (simp add: get_db_connection_failing_eq create_checkpoint_body_def
        checkpoint_insertable_def cp_orphan_def cp_blank_def Let_def ids)
  have a': "length (checkpoints
               (snd (create_checkpoint_body sample_to_dict sample_isoformat cp_orphan t0
                       db_two))) = 1"
    by (simp add: create_checkpoint_body_def checkpoint_insertable_def cp_orphan_def
        cp_blank_def Let_def ids rows)
  from block_atomicity[where commit_fails = False
      and body = "create_checkpoint_body sample_to_dict sample_isoformat cp_orphan t0"
      and db = db_two,
      THEN conjunct2, THEN conjunct2, THEN conjunct2, THEN conjunct1] a
  have a'': "snd (get_db_connection_failing False
            (create_checkpoint_body sample_to_dict sample_isoformat cp_orphan t0) db_two)
       = db_two" by simp

  have b: "fst (get_db_connection_failing False (mark_all_not_current_body 1 None) db_two)
             = Inr ()"
    by (simp add: get_db_connection_failing_eq mark_all_not_current_body_def)
  from block_atomicity[where commit_fails = False
      and body = "mark_all_not_current_body 1 None" and db = db_two,
      THEN conjunct2, THEN conjunct2, THEN conjunct1] b
  have b': "mark_all_not_current_body 1 None db_two
       = (Inr (), snd (get_db_connection_failing False (mark_all_not_current_body 1 None)
                         db_two))" by simp

  have c0: "\<forall>d. snd (get_internal_session_by_id_body 1 d) = d"
    by (simp add: get_internal_session_by_id_body_def split: option.splits)
  have c: "fst (two_blocks False (get_internal_session_by_id_body 1) True
            (\<lambda>r. set_current_session_body 2) db_two) = Inl OperationalError"
    using ids
    by (auto simp add: two_blocks_def get_db_connection_failing_eq
        get_internal_session_by_id_body_def set_current_session_body_def
        split: option.splits prod.splits sum.splits)
  from block_atomicity[where ?body0.0 = "get_internal_session_by_id_body 1"
      and ?fails0.0 = False and ?fails1.0 = True
      and ?body1.0 = "\<lambda>r. set_current_session_body 2" and ?db0.0 = db_two,
      THEN conjunct2, THEN conjunct2, THEN conjunct2, THEN conjunct2, THEN conjunct1] c0 c
  have c': "snd (two_blocks False (get_internal_session_by_id_body 1) True
            (\<lambda>r. set_current_session_body 2) db_two) = db_two" by simp

  have d: "fst (update_checkpoint_metadata_failing (\<lambda>k. k = 1) sample_to_dict
                  sample_from_dict 1 [(''note'', PStr ''kept'')] db_saved)
             = Inl OperationalError"
    by (simp add: update_checkpoint_metadata_failing_def get_db_connection_failing_eq
        get_checkpoint_by_id_body_def update_checkpoint_metadata_body_def first_def
        db_saved_def Let_def)
  from block_atomicity[where fails = "\<lambda>k. k = 1" and to_dict = sample_to_dict
      and from_dict = sample_from_dict and checkpoint_id = 1
      and metadata = "[(''note'', PStr ''kept'')]" and ?db1.0 = db_saved,
      THEN conjunct2, THEN conjunct2, THEN conjunct2, THEN conjunct2, THEN conjunct2, THEN conjunct1] d
  have d': "snd (update_checkpoint_metadata_failing (\<lambda>k. k = 1) sample_to_dict
            sample_from_dict 1 [(''note'', PStr ''kept'')] db_saved) = db_saved" by simp

  have i: "ins_is_current s_root" "ins_external_session_id s_root = 1"
    "ins_is_current s_branch_saved" "ins_external_session_id s_branch_saved = 1"
    "ins_id s_branch_saved = Some 2"
    by (simp_all add: s_root_def s_branch_def s_branch_saved_def)
  have e: "fst (create_internal_session_failing (\<lambda>k. False) s_root t0 db_two)
             = Inl IntegrityError"
    by (simp add: create_internal_session_failing_def mark_all_not_current_failing_eq
        get_db_connection_failing_eq siblings_cleared_def repo_eval)
  from block_atomicity[where fails = "\<lambda>k. False" and session = s_root and now = t0
      and ?db2.0 = db_two,
      THEN conjunct2, THEN conjunct2, THEN conjunct2, THEN conjunct2, THEN conjunct2, THEN conjunct2, THEN conjunct1] e i
  have e': "snd (create_internal_session_failing (\<lambda>k. False) s_root t0 db_two)
       = siblings_cleared 1 None db_two" by simp

  have f: "fst (update_internal_session_failing (\<lambda>k. k = 1) s_branch_saved db_two)
             = Inl OperationalError"
    using ids
    by (auto simp add: update_internal_session_failing_def mark_all_not_current_failing_eq
        get_db_connection_failing_eq update_internal_session_body_def siblings_cleared_def
        i truthy_def first_def split: option.splits list.splits)
  from block_atomicity[where fails = "\<lambda>k. k = 1" and session = s_branch_saved
      and ?db3.0 = db_two,
      THEN conjunct2, THEN conjunct2, THEN conjunct2, THEN conjunct2, THEN conjunct2, THEN conjunct2, THEN conjunct2, THEN conjunct1] f i
  have f': "snd (update_internal_session_failing (\<lambda>k. k = 1) s_branch_saved db_two)
       = siblings_cleared 1 (Some 2) db_two" by simp

  have g0: "first (filter (\<lambda>r. ism_id r = 2) (internal_sessions db_two))
              = Some (internal_sessions db_two ! 1)
            \<and> ism_external_session_id (internal_sessions db_two ! 1) = 1"
    by (simp add: repo_eval)
  have g: "fst (set_current_session_failing (\<lambda>k. k = 2) 2 db_two) = Inl OperationalError"
    using ids g0
    by (auto simp add: set_current_session_failing_def mark_all_not_current_failing_eq
        get_db_connection_failing_eq get_internal_session_by_id_body_def
        set_current_session_body_def siblings_cleared_def row_to_session_def
        split: option.splits prod.splits sum.splits)
  from block_atomicity[where fails = "\<lambda>k. k = 2" and session_id = 2 and ?db4.0 = db_two,
      THEN conjunct2, THEN conjunct2, THEN conjunct2, THEN conjunct2, THEN conjunct2, THEN conjunct2, THEN conjunct2, THEN conjunct2, THEN conjunct1] g g0
  have g': "snd (set_current_session_failing (\<lambda>k. k = 2) 2 db_two)
       = siblings_cleared 1 None db_two" by simp

  from rows a a' a'' b b' c c' d d' e e' f f' g g' show ?thesis by (intro conjI) simp_all
qed

text \<open>
  C2 as stated fails: \<open>create\<close> of a current session whose \<open>langgraph_session_id\<close>
  is already taken raises the integrity error of the unique index, and the session that
  was current before is no longer current.
\<close>

theorem create_not_atomic_counterexample:
  "fst (create_internal_session s_root t0 db_two) = Inl IntegrityError
   \<and> snd (create_internal_session s_root t0 db_two) \<noteq> db_two
   \<and> map ism_is_current (internal_sessions db_two) = [True, False]
   \<and> map ism_is_current (internal_sessions (snd (create_internal_session s_root t0 db_two)))
       = [False, False]"
proof -
  have a: "fst (create_internal_session s_root t0 db_two) = Inl IntegrityError"
    by (simp add: repo_eval)
  have b: "map ism_is_current (internal_sessions db_two) = [True, False]"
    by (simp add: repo_eval)
  have c: "map ism_is_current (internal_sessions (snd (create_internal_session s_root t0 db_two)))
       = [False, False]"
    by (simp add: repo_eval)
  from b c have "snd (create_internal_session s_root t0 db_two) \<noteq> db_two" by auto
  with a b c show ?thesis by simp
qed

end
